theory Spec2Isabelle
  imports Complex_Main "HOL-Library.Sublist"
begin

section \<open>Python values and exceptions\<close>

text \<open>
  The theme payloads and the component descriptions are JSON-shaped Python values:
  \<^verbatim>\<open>None\<close>, booleans, integers, floats, strings, lists and dicts with string keys.  A
  dict is an association list in insertion order (Python dicts keep it); the keys of a
  dict are pairwise different, but no function below relies on that.  A float is the
  real number it denotes, an infinity or NaN (so \<^verbatim>\<open>-0.0\<close> is \<^verbatim>\<open>0.0\<close>, as it is for
  \<^verbatim>\<open>==\<close> and as a key); no function of the code computes with one.
\<close>

datatype pyfloat = Finite real | PosInf | NegInf | NaN

datatype json =
    JNull
  | JBool bool
  | JInt int
  | JFloat pyfloat
  | JStr string
  | JArr "json list"
  | JObj "(string \<times> json) list"

type_synonym pydict = "(string \<times> json) list"

text \<open>
  The exceptions the code can raise.  \<open>ValueError\<close> carries the message of the three
  explicit \<^verbatim>\<open>raise ValueError(...)\<close> statements; \<open>EnumValueError\<close> is the
  \<^verbatim>\<open>ValueError\<close> that the call \<^verbatim>\<open>ColorScheme(scheme)\<close> raises for a string that is
  not the value of a member (it carries that string).  \<open>SyntaxError\<close> is what compiling
  an f-string gives when a replacement field is not an expression.
\<close>

datatype py_error =
    KeyError string
  | TypeError
  | AttributeError
  | EnumValueError string
  | ValueError string
  | FileNotFoundError string
  | SyntaxError

definition bind_exc :: "py_error + 'a \<Rightarrow> ('a \<Rightarrow> py_error + 'b) \<Rightarrow> py_error + 'b" where
  "bind_exc m f = (case m of Inl e \<Rightarrow> Inl e | Inr v \<Rightarrow> f v)"

text \<open>\<^verbatim>\<open>d[k]\<close> on a dict, \<^verbatim>\<open>v[k]\<close> on any value with a string key (only a dict can
  be subscripted by a string), and \<^verbatim>\<open>v.items()\<close> (only a dict has the method).\<close>

definition dict_getitem :: "pydict \<Rightarrow> string \<Rightarrow> py_error + json" where
  "dict_getitem d k = (case map_of d k of None \<Rightarrow> Inl (KeyError k) | Some v \<Rightarrow> Inr v)"

definition getitem :: "json \<Rightarrow> string \<Rightarrow> py_error + json" where
  "getitem v k = (case v of JObj d \<Rightarrow> dict_getitem d k | _ \<Rightarrow> Inl TypeError)"

definition items :: "json \<Rightarrow> py_error + pydict" where
  "items v = (case v of JObj d \<Rightarrow> Inr d | _ \<Rightarrow> Inl AttributeError)"

text \<open>\<^verbatim>\<open>d[k] = v\<close>: an existing key keeps its position, a new one goes last.\<close>

fun dict_setitem :: "('k \<times> 'v) list \<Rightarrow> 'k \<Rightarrow> 'v \<Rightarrow> ('k \<times> 'v) list" where
  "dict_setitem [] k v = [(k, v)]"
| "dict_setitem ((k', v') # rest) k v =
     (if k' = k then (k', v) # rest else (k', v') # dict_setitem rest k v)"

text \<open>
  Calling a dataclass with \<^verbatim>\<open>**kwargs\<close>: the argument must be a mapping, every key must
  be a field (else \<^verbatim>\<open>TypeError\<close>: unexpected keyword argument) and every field must be
  a key (else \<^verbatim>\<open>TypeError\<close>: missing required argument).
\<close>

definition kwargs :: "string list \<Rightarrow> json \<Rightarrow> py_error + pydict" where
  "kwargs fields v =
     (case v of
        JObj d \<Rightarrow> if list_all (\<lambda>k. k \<in> set fields) (map fst d) then Inr d else Inl TypeError
      | _ \<Rightarrow> Inl TypeError)"

definition kwarg :: "pydict \<Rightarrow> string \<Rightarrow> py_error + json" where
  "kwarg d k = (case map_of d k of None \<Rightarrow> Inl TypeError | Some v \<Rightarrow> Inr v)"

section \<open>Text formatting\<close>

text \<open>
  An f-string field \<^verbatim>\<open>{v}\<close> is \<^verbatim>\<open>format(v, "")\<close>: a string is inserted as it is, any
  other value through Python's \<^verbatim>\<open>str\<close>.  That builtin is not part of the repository;
  its result on a non-string value is the parameter \<open>pystr\<close> of the functions below.
\<close>

definition py_format :: "(json \<Rightarrow> string) \<Rightarrow> json \<Rightarrow> string" where
  "py_format pystr v = (case v of JStr s \<Rightarrow> s | _ \<Rightarrow> pystr v)"

definition nl :: string where
  "nl = [CHR 0x0A]"

text \<open>\<^verbatim>\<open>sep.join(parts)\<close>\<close>

fun join :: "string \<Rightarrow> string list \<Rightarrow> string" where
  "join sep [] = []"
| "join sep [p] = p"
| "join sep (p # q # rest) = p @ sep @ join sep (q # rest)"

text \<open>The decimal text of a list index (\<^verbatim>\<open>{i}\<close> under \<^verbatim>\<open>enumerate\<close>).\<close>

fun string_of_nat :: "nat \<Rightarrow> string" where
  "string_of_nat n =
     (if n < 10 then [char_of (48 + n)]
      else string_of_nat (n div 10) @ [char_of (48 + n mod 10)])"

declare string_of_nat.simps [simp del]

text \<open>Iterating a value (\<^verbatim>\<open>for x in v\<close>): a list gives its elements, a string its
  characters, a dict its keys; the other values are not iterable.\<close>

definition iter :: "json \<Rightarrow> py_error + json list" where
  "iter v =
     (case v of
        JArr elems \<Rightarrow> Inr elems
      | JStr s \<Rightarrow> Inr (map (\<lambda>c. JStr [c]) s)
      | JObj d \<Rightarrow> Inr (map (\<lambda>kv. JStr (fst kv)) d)
      | _ \<Rightarrow> Inl TypeError)"

section \<open>The component renderers (framework\_adapter.py)\<close>

datatype ComponentDefinition =
  ComponentDefinition
    (name: string)
    (props: pydict)
    (children: "ComponentDefinition list")
    (styles: pydict)
    (framework_specific: pydict)

text \<open>\<^verbatim>\<open>definition.name.lower()\<close> calls the builtin \<^verbatim>\<open>str.lower\<close>, which is the
  parameter \<open>pylower\<close> below.\<close>

subsection \<open>ReactAdapter\<close>

definition ReactAdapter_generate_styles :: "(json \<Rightarrow> string) \<Rightarrow> pydict \<Rightarrow> string" where
  "ReactAdapter_generate_styles pystr styles' =
     join (nl @ ''    '')
          (map (\<lambda>(prop, v). prop @ '': '' @ py_format pystr v @ '';'') styles')"

definition ReactAdapter_generate_props :: "(json \<Rightarrow> string) \<Rightarrow> pydict \<Rightarrow> string" where
  "ReactAdapter_generate_props pystr props' =
     ''{ '' @ join '', '' (map (\<lambda>(n, type_info). n @ '': '' @ py_format pystr type_info) props')
       @ '' }''"

text \<open>
  The f-string that \<^verbatim>\<open>ReactAdapter.generate_component\<close> returns has five kinds of
  brace groups: the fields \<^verbatim>\<open>{definition.name}\<close>, \<^verbatim>\<open>{styles}\<close> and \<^verbatim>\<open>{props}\<close>; the
  doubled braces \<^verbatim>\<open>{{\<close> and \<^verbatim>\<open>}}\<close>, which are literal braces, so that
  \<^verbatim>\<open>{{"".join(children)}}\<close> is the literal text \<^verbatim>\<open>{"".join(children)}\<close> and the list
  \<^verbatim>\<open>children\<close> is not used; and the field \<^verbatim>\<open>{...props}\<close>, whose content
  \<^verbatim>\<open>...props\<close> is not a Python expression.  \<open>ReactAdapter_template\<close> is the text of
  the f-string as a function of its fields, the last argument standing for the field
  \<^verbatim>\<open>{...props}\<close>; \<open>ReactAdapter_spread_field\<close> is what Python makes of that field.
  The error belongs to the compilation of the f-string, so it comes before any
  evaluation, whatever the argument.  (Python raises it when it compiles the module; the
  model charges it to the function whose body holds the f-string and reads every other
  function of the module as it is written.)
\<close>

definition ReactAdapter_template :: "string \<Rightarrow> string \<Rightarrow> string \<Rightarrow> string \<Rightarrow> string" where
  \<open>ReactAdapter_template name' styles' props' spread =
     join nl
       [[],
        ''import React from 'react';'',
        ''import styled from 'styled-components';'',
        [],
        ''const Styled'' @ name' @ '' = styled.div`'',
        ''    '' @ styles',
        ''`;'',
        [],
        ''export const '' @ name' @ '' = ('' @ props' @ '') => {'',
        ''    return ('',
        ''        <Styled'' @ name' @ '' '' @ spread @ ''>'',
        ''            {"".join(children)}'',
        ''        </Styled'' @ name' @ ''>'',
        ''    );'',
        ''};'',
        []]\<close>

definition ReactAdapter_spread_field :: "py_error + string" where
  "ReactAdapter_spread_field = Inl SyntaxError"

definition ReactAdapter_generate_component ::
  "(json \<Rightarrow> string) \<Rightarrow> ComponentDefinition \<Rightarrow> py_error + string" where
  "ReactAdapter_generate_component pystr definition' =
     bind_exc ReactAdapter_spread_field (\<lambda>spread.
       Inr (ReactAdapter_template (name definition')
              (ReactAdapter_generate_styles pystr (styles definition'))
              (ReactAdapter_generate_props pystr (props definition'))
              spread))"

subsection \<open>VueAdapter\<close>

definition VueAdapter_generate_styles :: "(json \<Rightarrow> string) \<Rightarrow> pydict \<Rightarrow> string" where
  "VueAdapter_generate_styles pystr styles' =
     join nl (map (\<lambda>(prop, v). ''    '' @ prop @ '': '' @ py_format pystr v @ '';'') styles')"

definition VueAdapter_generate_props :: "(json \<Rightarrow> string) \<Rightarrow> pydict \<Rightarrow> string" where
  "VueAdapter_generate_props pystr props' =
     ''{'' @ nl
       @ join ('','' @ nl)
           (map (\<lambda>(n, type_info). ''    '' @ n @ '': { type: '' @ py_format pystr type_info @ '' }'')
                props')
       @ nl @ ''}''"

text \<open>The text of the f-string, its last argument being the value of the field
  \<^verbatim>\<open>{"".join(children)}\<close>.\<close>

definition VueAdapter_template ::
  "(string \<Rightarrow> string) \<Rightarrow> string \<Rightarrow> string \<Rightarrow> string \<Rightarrow> string \<Rightarrow> string" where
  \<open>VueAdapter_template pylower name' styles' props' joined =
     join nl
       [[],
        ''<template>'',
        ''    <div class="'' @ pylower name' @ ''">'',
        ''        '' @ joined,
        ''    </div>'',
        ''</template>'',
        [],
        ''<script>'',
        ''export default {'',
        ''    name: '' @ [CHR 0x27] @ name' @ [CHR 0x27] @ '','',
        ''    props: '' @ props',
        ''}'',
        ''</script>'',
        [],
        ''<style scoped>'',
        ''.'' @ pylower name' @ '' {'',
        ''    '' @ styles',
        ''}'',
        ''</style>'',
        []]\<close>

fun VueAdapter_generate_component ::
  "(json \<Rightarrow> string) \<Rightarrow> (string \<Rightarrow> string) \<Rightarrow> ComponentDefinition \<Rightarrow> string" where
  "VueAdapter_generate_component pystr pylower (ComponentDefinition n p cs st fs) =
     (let props' = VueAdapter_generate_props pystr p;
          styles' = VueAdapter_generate_styles pystr st;
          children' = map (VueAdapter_generate_component pystr pylower) cs
      in VueAdapter_template pylower n styles' props' (join [] children'))"

subsection \<open>SvelteAdapter\<close>

definition SvelteAdapter_generate_styles :: "(json \<Rightarrow> string) \<Rightarrow> pydict \<Rightarrow> string" where
  "SvelteAdapter_generate_styles pystr styles' =
     join nl (map (\<lambda>(prop, v). ''        '' @ prop @ '': '' @ py_format pystr v @ '';'') styles')"

definition SvelteAdapter_generate_props :: "(json \<Rightarrow> string) \<Rightarrow> pydict \<Rightarrow> string" where
  "SvelteAdapter_generate_props pystr props' =
     join (nl @ ''    '') (map (\<lambda>(n, type_info). ''export let '' @ n @ '';'') props')"

definition SvelteAdapter_template ::
  "(string \<Rightarrow> string) \<Rightarrow> string \<Rightarrow> string \<Rightarrow> string \<Rightarrow> string \<Rightarrow> string" where
  \<open>SvelteAdapter_template pylower name' styles' props' joined =
     join nl
       [[],
        ''<script>'',
        ''    '' @ props',
        ''</script>'',
        [],
        ''<div class="'' @ pylower name' @ ''">'',
        ''    '' @ joined,
        ''</div>'',
        [],
        ''<style>'',
        ''    .'' @ pylower name' @ '' {'',
        ''        '' @ styles',
        ''    }'',
        ''</style>'',
        []]\<close>

fun SvelteAdapter_generate_component ::
  "(json \<Rightarrow> string) \<Rightarrow> (string \<Rightarrow> string) \<Rightarrow> ComponentDefinition \<Rightarrow> string" where
  "SvelteAdapter_generate_component pystr pylower (ComponentDefinition n p cs st fs) =
     (let props' = SvelteAdapter_generate_props pystr p;
          styles' = SvelteAdapter_generate_styles pystr st;
          children' = map (SvelteAdapter_generate_component pystr pylower) cs
      in SvelteAdapter_template pylower n styles' props' (join [] children'))"

subsection \<open>NextJSAdapter\<close>

definition NextJSAdapter_generate_styles :: "(json \<Rightarrow> string) \<Rightarrow> pydict \<Rightarrow> string" where
  "NextJSAdapter_generate_styles pystr styles' =
     join nl (map (\<lambda>(prop, v). ''    '' @ prop @ '': '' @ py_format pystr v @ '';'') styles')"

definition NextJSAdapter_generate_props :: "(json \<Rightarrow> string) \<Rightarrow> pydict \<Rightarrow> string" where
  "NextJSAdapter_generate_props pystr props' =
     ''{ '' @ join '', '' (map (\<lambda>(n, type_info). n) props') @ '' }''"

text \<open>As in the React template, \<^verbatim>\<open>{{"".join(children)}}\<close> is literal text here: the
  template has no field for the children.\<close>

definition NextJSAdapter_template :: "string \<Rightarrow> string \<Rightarrow> string \<Rightarrow> string" where
  \<open>NextJSAdapter_template name' styles' props' =
     join nl
       [[],
        [CHR 0x27] @ ''use client'' @ [CHR 0x27] @ '';'',
        [],
        ''import styled from 'styled-components';'',
        [],
        ''const Styled'' @ name' @ '' = styled.div`'',
        ''    '' @ styles',
        ''`;'',
        [],
        ''export default function '' @ name' @ ''('' @ props' @ '') {'',
        ''    return ('',
        ''        <Styled'' @ name' @ ''>'',
        ''            {"".join(children)}'',
        ''        </Styled'' @ name' @ ''>'',
        ''    );'',
        ''}'',
        []]\<close>

fun NextJSAdapter_generate_component ::
  "(json \<Rightarrow> string) \<Rightarrow> ComponentDefinition \<Rightarrow> string" where
  "NextJSAdapter_generate_component pystr (ComponentDefinition n p cs st fs) =
     (let props' = NextJSAdapter_generate_props pystr p;
          styles' = NextJSAdapter_generate_styles pystr st;
          children' = map (NextJSAdapter_generate_component pystr) cs
      in NextJSAdapter_template n styles' props')"

subsection \<open>UIGenerator\<close>

datatype UIFramework = REACT | VUE | SVELTE | NEXTJS

datatype adapter = ReactAdapter | VueAdapter | SvelteAdapter | NextJSAdapter

fun adapter_generate_component ::
  "(json \<Rightarrow> string) \<Rightarrow> (string \<Rightarrow> string) \<Rightarrow> adapter \<Rightarrow> ComponentDefinition \<Rightarrow> py_error + string"
where
  "adapter_generate_component pystr pylower ReactAdapter d = ReactAdapter_generate_component pystr d"
| "adapter_generate_component pystr pylower VueAdapter d =
     Inr (VueAdapter_generate_component pystr pylower d)"
| "adapter_generate_component pystr pylower SvelteAdapter d =
     Inr (SvelteAdapter_generate_component pystr pylower d)"
| "adapter_generate_component pystr pylower NextJSAdapter d =
     Inr (NextJSAdapter_generate_component pystr d)"

text \<open>The generator's state is its registry \<^verbatim>\<open>self.adapters\<close>; \<open>UIGenerator_init\<close> is
  the registry that \<^verbatim>\<open>__init__\<close> builds.\<close>

record UIGenerator =
  adapters :: "UIFramework \<rightharpoonup> adapter"

definition UIGenerator_init :: UIGenerator where
  "UIGenerator_init =
     \<lparr>adapters = [REACT \<mapsto> ReactAdapter, VUE \<mapsto> VueAdapter,
                  SVELTE \<mapsto> SvelteAdapter, NEXTJS \<mapsto> NextJSAdapter]\<rparr>"

text \<open>\<^verbatim>\<open>str\<close> of an enum member, as the message of the exception shows it.\<close>

fun UIFramework_str :: "UIFramework \<Rightarrow> string" where
  "UIFramework_str REACT = ''UIFramework.REACT''"
| "UIFramework_str VUE = ''UIFramework.VUE''"
| "UIFramework_str SVELTE = ''UIFramework.SVELTE''"
| "UIFramework_str NEXTJS = ''UIFramework.NEXTJS''"

definition unsupported_framework :: "UIFramework \<Rightarrow> py_error" where
  "unsupported_framework framework =
     ValueError (''Unsupported framework: '' @ UIFramework_str framework)"

definition generate_component ::
  "(json \<Rightarrow> string) \<Rightarrow> (string \<Rightarrow> string) \<Rightarrow> UIGenerator \<Rightarrow> ComponentDefinition \<Rightarrow> UIFramework
     \<Rightarrow> py_error + string" where
  "generate_component pystr pylower g definition' framework =
     (case adapters g framework of
        None \<Rightarrow> Inl (unsupported_framework framework)
      | Some a \<Rightarrow> adapter_generate_component pystr pylower a definition')"

section \<open>The theme model (theme\_manager.py)\<close>

datatype ColorScheme = LIGHT | DARK

fun ColorScheme_value :: "ColorScheme \<Rightarrow> string" where
  "ColorScheme_value LIGHT = ''light''"
| "ColorScheme_value DARK = ''dark''"

definition ColorScheme_call :: "string \<Rightarrow> py_error + ColorScheme" where
  "ColorScheme_call s =
     (if s = ''light'' then Inr LIGHT
      else if s = ''dark'' then Inr DARK
      else Inl (EnumValueError s))"

text \<open>The dataclasses.  No field is type-checked by Python, so every field holds the raw
  JSON value it was given.  The palette field \<^verbatim>\<open>text\<close> is written \<open>text'\<close> here.\<close>

record ColorPalette =
  primary :: json
  secondary :: json
  accent :: json
  background :: json
  text' :: json
  error :: json
  warning :: json
  success :: json
  info :: json

record Typography =
  font_family :: json
  font_size_base :: json
  line_height_base :: json
  headings :: json
  body :: json

record Spacing =
  unit :: json
  scale :: json
  custom :: json

record Breakpoints =
  xs :: json
  sm :: json
  md :: json
  lg :: json
  xl :: json
  xxl :: json

record Theme =
  name :: json
  color_schemes :: "(ColorScheme \<times> ColorPalette) list"
  typography :: Typography
  spacing :: Spacing
  breakpoints :: Breakpoints
  custom :: json

definition ColorPalette_fields :: "string list" where
  "ColorPalette_fields =
     [''primary'', ''secondary'', ''accent'', ''background'', ''text'',
      ''error'', ''warning'', ''success'', ''info'']"

definition Breakpoints_fields :: "string list" where
  "Breakpoints_fields = [''xs'', ''sm'', ''md'', ''lg'', ''xl'', ''xxl'']"

text \<open>\<^verbatim>\<open>ColorPalette(**colors)\<close> and \<^verbatim>\<open>Breakpoints(**b)\<close>.\<close>

definition ColorPalette_init :: "json \<Rightarrow> py_error + ColorPalette" where
  "ColorPalette_init colors =
     bind_exc (kwargs ColorPalette_fields colors) (\<lambda>d.
     bind_exc (kwarg d ''primary'') (\<lambda>v1.
     bind_exc (kwarg d ''secondary'') (\<lambda>v2.
     bind_exc (kwarg d ''accent'') (\<lambda>v3.
     bind_exc (kwarg d ''background'') (\<lambda>v4.
     bind_exc (kwarg d ''text'') (\<lambda>v5.
     bind_exc (kwarg d ''error'') (\<lambda>v6.
     bind_exc (kwarg d ''warning'') (\<lambda>v7.
     bind_exc (kwarg d ''success'') (\<lambda>v8.
     bind_exc (kwarg d ''info'') (\<lambda>v9.
       Inr \<lparr>primary = v1, secondary = v2, accent = v3, background = v4, text' = v5,
            error = v6, warning = v7, success = v8, info = v9\<rparr>))))))))))"

definition Breakpoints_init :: "json \<Rightarrow> py_error + Breakpoints" where
  "Breakpoints_init b =
     bind_exc (kwargs Breakpoints_fields b) (\<lambda>d.
     bind_exc (kwarg d ''xs'') (\<lambda>v1.
     bind_exc (kwarg d ''sm'') (\<lambda>v2.
     bind_exc (kwarg d ''md'') (\<lambda>v3.
     bind_exc (kwarg d ''lg'') (\<lambda>v4.
     bind_exc (kwarg d ''xl'') (\<lambda>v5.
     bind_exc (kwarg d ''xxl'') (\<lambda>v6.
       Inr \<lparr>xs = v1, sm = v2, md = v3, lg = v4, xl = v5, xxl = v6\<rparr>)))))))"

text \<open>
  \<^verbatim>\<open>ThemeManager._parse_theme\<close> (the methods \<^verbatim>\<open>_parse_theme\<close>, \<^verbatim>\<open>_export_css\<close>,
  \<^verbatim>\<open>_export_scss\<close> and \<^verbatim>\<open>_load_themes\<close> are written without their underscore
  here).  The dict comprehension over
  \<^verbatim>\<open>theme_data["color_schemes"].items()\<close> is the loop \<open>color_schemes_comp\<close>: for each
  item the key \<^verbatim>\<open>ColorScheme(scheme)\<close> is evaluated, then the value
  \<^verbatim>\<open>ColorPalette(**colors)\<close>, then the pair is stored.
\<close>

fun color_schemes_comp ::
  "pydict \<Rightarrow> (ColorScheme \<times> ColorPalette) list \<Rightarrow> py_error + (ColorScheme \<times> ColorPalette) list"
where
  "color_schemes_comp [] acc = Inr acc"
| "color_schemes_comp ((scheme, colors) # rest) acc =
     bind_exc (ColorScheme_call scheme) (\<lambda>k.
     bind_exc (ColorPalette_init colors) (\<lambda>p.
       color_schemes_comp rest (dict_setitem acc k p)))"

text \<open>\<^verbatim>\<open>theme_data[k1][k2]\<close>\<close>

definition getitem2 :: "pydict \<Rightarrow> string \<Rightarrow> string \<Rightarrow> py_error + json" where
  "getitem2 theme_data k1 k2 = bind_exc (dict_getitem theme_data k1) (\<lambda>v. getitem v k2)"

definition parse_typography :: "pydict \<Rightarrow> py_error + Typography" where
  "parse_typography theme_data =
     bind_exc (getitem2 theme_data ''typography'' ''font_family'') (\<lambda>v1.
     bind_exc (getitem2 theme_data ''typography'' ''font_size_base'') (\<lambda>v2.
     bind_exc (getitem2 theme_data ''typography'' ''line_height_base'') (\<lambda>v3.
     bind_exc (getitem2 theme_data ''typography'' ''headings'') (\<lambda>v4.
     bind_exc (getitem2 theme_data ''typography'' ''body'') (\<lambda>v5.
       Inr \<lparr>font_family = v1, font_size_base = v2, line_height_base = v3,
            headings = v4, body = v5\<rparr>)))))"

definition parse_spacing :: "pydict \<Rightarrow> py_error + Spacing" where
  "parse_spacing theme_data =
     bind_exc (getitem2 theme_data ''spacing'' ''unit'') (\<lambda>v1.
     bind_exc (getitem2 theme_data ''spacing'' ''scale'') (\<lambda>v2.
     bind_exc (getitem2 theme_data ''spacing'' ''custom'') (\<lambda>v3.
       Inr \<lparr>unit = v1, scale = v2, Spacing.custom = v3\<rparr>)))"

text \<open>\<^verbatim>\<open>theme_data.get("custom", {})\<close>\<close>

definition dict_get_default :: "pydict \<Rightarrow> string \<Rightarrow> json \<Rightarrow> json" where
  "dict_get_default d k dflt = (case map_of d k of None \<Rightarrow> dflt | Some v \<Rightarrow> v)"

definition parse_theme :: "pydict \<Rightarrow> py_error + Theme" where
  "parse_theme theme_data =
     bind_exc (dict_getitem theme_data ''color_schemes'') (\<lambda>cs.
     bind_exc (items cs) (\<lambda>its.
     bind_exc (color_schemes_comp its []) (\<lambda>color_schemes'.
     bind_exc (parse_typography theme_data) (\<lambda>typography'.
     bind_exc (parse_spacing theme_data) (\<lambda>spacing'.
     bind_exc (dict_getitem theme_data ''breakpoints'') (\<lambda>b.
     bind_exc (Breakpoints_init b) (\<lambda>breakpoints'.
     bind_exc (dict_getitem theme_data ''name'') (\<lambda>name'.
       Inr \<lparr>name = name', color_schemes = color_schemes', typography = typography',
            spacing = spacing', breakpoints = breakpoints',
            custom = dict_get_default theme_data ''custom'' (JObj [])\<rparr>))))))))"

section \<open>Theme export\<close>

text \<open>\<^verbatim>\<open>palette.__dict__.items()\<close> and \<^verbatim>\<open>theme.breakpoints.__dict__.items()\<close>: the
  fields in declaration order.\<close>

definition ColorPalette_dict :: "ColorPalette \<Rightarrow> pydict" where
  "ColorPalette_dict p =
     [(''primary'', primary p), (''secondary'', secondary p), (''accent'', accent p),
      (''background'', background p), (''text'', text' p), (''error'', error p),
      (''warning'', warning p), (''success'', success p), (''info'', info p)]"

definition Breakpoints_dict :: "Breakpoints \<Rightarrow> pydict" where
  "Breakpoints_dict b =
     [(''xs'', xs b), (''sm'', sm b), (''md'', md b), (''lg'', lg b), (''xl'', xl b),
      (''xxl'', xxl b)]"

text \<open>The lines that \<^verbatim>\<open>_export_css\<close> appends, loop by loop.\<close>

definition css_color_lines ::
  "(json \<Rightarrow> string) \<Rightarrow> (ColorScheme \<times> ColorPalette) list \<Rightarrow> string list" where
  "css_color_lines pystr schemes =
     concat (map (\<lambda>(scheme, palette).
       map (\<lambda>(color_name, color_value).
              ''  --color-'' @ ColorScheme_value scheme @ ''-'' @ color_name @ '': ''
                @ py_format pystr color_value @ '';'')
           (ColorPalette_dict palette)) schemes)"

fun css_heading_lines :: "(json \<Rightarrow> string) \<Rightarrow> pydict \<Rightarrow> py_error + string list" where
  "css_heading_lines pystr [] = Inr []"
| "css_heading_lines pystr ((heading, props') # rest) =
     bind_exc (items props') (\<lambda>ps.
     bind_exc (css_heading_lines pystr rest) (\<lambda>more.
       Inr (map (\<lambda>(prop_name, prop_value).
                   ''  --typography-'' @ heading @ ''-'' @ prop_name @ '': ''
                     @ py_format pystr prop_value @ '';'') ps
            @ more)))"

definition css_scale_lines :: "(json \<Rightarrow> string) \<Rightarrow> json list \<Rightarrow> string list" where
  "css_scale_lines pystr vals =
     map (\<lambda>(i, v). ''  --spacing-'' @ string_of_nat i @ '': '' @ py_format pystr v @ '';'')
         (enumerate 0 vals)"

definition css_breakpoint_lines :: "(json \<Rightarrow> string) \<Rightarrow> Breakpoints \<Rightarrow> string list" where
  "css_breakpoint_lines pystr b =
     map (\<lambda>(breakpoint, v). ''  --breakpoint-'' @ breakpoint @ '': '' @ py_format pystr v @ '';'')
         (Breakpoints_dict b)"

text \<open>The list \<^verbatim>\<open>css\<close> at the \<^verbatim>\<open>return\<close> of \<^verbatim>\<open>_export_css\<close>, and the text returned.
  An exception in a loop (\<^verbatim>\<open>headings\<close> or one of its values is not a dict, \<^verbatim>\<open>scale\<close>
  is not iterable) discards what was appended so far.\<close>

definition export_css_lines :: "(json \<Rightarrow> string) \<Rightarrow> Theme \<Rightarrow> py_error + string list" where
  "export_css_lines pystr theme =
     bind_exc (items (headings (typography theme))) (\<lambda>hs.
     bind_exc (css_heading_lines pystr hs) (\<lambda>heading_lines.
     bind_exc (iter (scale (spacing theme))) (\<lambda>vals.
       Inr (['':root {'']
            @ css_color_lines pystr (color_schemes theme)
            @ [''  --font-family: '' @ py_format pystr (font_family (typography theme)) @ '';'',
               ''  --font-size-base: '' @ py_format pystr (font_size_base (typography theme)) @ '';'',
               ''  --line-height-base: '' @ py_format pystr (line_height_base (typography theme)) @ '';'']
            @ heading_lines
            @ [''  --spacing-unit: '' @ py_format pystr (unit (spacing theme)) @ '';'']
            @ css_scale_lines pystr vals
            @ css_breakpoint_lines pystr (breakpoints theme)
            @ [''}'']))))"

definition export_css :: "(json \<Rightarrow> string) \<Rightarrow> Theme \<Rightarrow> py_error + string" where
  "export_css pystr theme = bind_exc (export_css_lines pystr theme) (\<lambda>css. Inr (join nl css))"

text \<open>The same for \<^verbatim>\<open>_export_scss\<close>.\<close>

definition scss_color_lines ::
  "(json \<Rightarrow> string) \<Rightarrow> (ColorScheme \<times> ColorPalette) list \<Rightarrow> string list" where
  "scss_color_lines pystr schemes =
     concat (map (\<lambda>(scheme, palette).
       map (\<lambda>(color_name, color_value).
              ''$color-'' @ ColorScheme_value scheme @ ''-'' @ color_name @ '': ''
                @ py_format pystr color_value @ '';'')
           (ColorPalette_dict palette)) schemes)"

fun scss_heading_lines :: "(json \<Rightarrow> string) \<Rightarrow> pydict \<Rightarrow> py_error + string list" where
  "scss_heading_lines pystr [] = Inr []"
| "scss_heading_lines pystr ((heading, props') # rest) =
     bind_exc (items props') (\<lambda>ps.
     bind_exc (scss_heading_lines pystr rest) (\<lambda>more.
       Inr ([''  '' @ heading @ '': ('']
            @ map (\<lambda>(prop_name, prop_value).
                     ''    '' @ prop_name @ '': '' @ py_format pystr prop_value @ '','') ps
            @ [''  ),'']
            @ more)))"

definition scss_scale_lines :: "(json \<Rightarrow> string) \<Rightarrow> json list \<Rightarrow> string list" where
  "scss_scale_lines pystr vals =
     map (\<lambda>(i, v). ''  '' @ string_of_nat i @ '': '' @ py_format pystr v @ '','')
         (enumerate 0 vals)"

definition scss_breakpoint_lines :: "(json \<Rightarrow> string) \<Rightarrow> Breakpoints \<Rightarrow> string list" where
  "scss_breakpoint_lines pystr b =
     map (\<lambda>(breakpoint, v). ''  '' @ breakpoint @ '': '' @ py_format pystr v @ '','')
         (Breakpoints_dict b)"

definition export_scss_lines :: "(json \<Rightarrow> string) \<Rightarrow> Theme \<Rightarrow> py_error + string list" where
  "export_scss_lines pystr theme =
     bind_exc (items (headings (typography theme))) (\<lambda>hs.
     bind_exc (scss_heading_lines pystr hs) (\<lambda>heading_lines.
     bind_exc (iter (scale (spacing theme))) (\<lambda>vals.
       Inr (scss_color_lines pystr (color_schemes theme)
            @ [''$font-family: '' @ py_format pystr (font_family (typography theme)) @ '';'',
               ''$font-size-base: '' @ py_format pystr (font_size_base (typography theme)) @ '';'',
               ''$line-height-base: '' @ py_format pystr (line_height_base (typography theme)) @ '';'']
            @ [''$typography: ('']
            @ heading_lines
            @ ['');'']
            @ [''$spacing-unit: '' @ py_format pystr (unit (spacing theme)) @ '';'']
            @ [''$spacing: ('']
            @ scss_scale_lines pystr vals
            @ ['');'']
            @ [''$breakpoints: ('']
            @ scss_breakpoint_lines pystr (breakpoints theme)
            @ ['');'']))))"

definition export_scss :: "(json \<Rightarrow> string) \<Rightarrow> Theme \<Rightarrow> py_error + string" where
  "export_scss pystr theme = bind_exc (export_scss_lines pystr theme) (\<lambda>scss. Inr (join nl scss))"

section \<open>The theme store (ThemeManager)\<close>

text \<open>
  The state of a \<^verbatim>\<open>ThemeManager\<close>: the in-memory index \<^verbatim>\<open>self.themes\<close> and the files
  of \<^verbatim>\<open>themes_dir\<close>, as a map from the file's path relative to that directory to the
  JSON value it holds.  The text of a file is not modelled: \<^verbatim>\<open>json.load\<close> returns a
  value of the same structure as the one \<^verbatim>\<open>json.dump\<close> wrote, built from new objects
  (a float is written by its shortest exact text, NaN and the infinities as
  \<^verbatim>\<open>NaN\<close>, \<^verbatim>\<open>Infinity\<close> and \<^verbatim>\<open>-Infinity\<close>, and read back as such).  Whether \<^verbatim>\<open>open(theme_file, "w")\<close> opens a
  path depends on the file system (the directory of the path must exist and accept the
  file): \<open>write_error\<close> gives, for a path relative to \<^verbatim>\<open>themes_dir\<close>, the exception that
  \<^verbatim>\<open>open\<close> raises for it, or \<open>None\<close> when the file is opened.  No operation of the
  store makes or removes a directory, so no operation changes \<open>write_error\<close>.  Removing
  a file that does not exist raises \<^verbatim>\<open>FileNotFoundError\<close>.

  The index is a Python dict: a key must be hashable (lists and dicts are not); \<^verbatim>\<open>True\<close>
  and \<^verbatim>\<open>1\<close> (\<^verbatim>\<open>False\<close> and \<^verbatim>\<open>0\<close>) are the same key, and so are a float without
  fraction and the integer of its value.  (Object identity is not modelled: NaN is one
  key, as it is for one and the same object.)
\<close>

record store =
  themes :: "json \<rightharpoonup> Theme"
  files :: "string \<rightharpoonup> json"
  write_error :: "string \<Rightarrow> py_error option"

fun hashable :: "json \<Rightarrow> bool" where
  "hashable (JArr _) = False"
| "hashable (JObj _) = False"
| "hashable _ = True"

fun dict_key :: "json \<Rightarrow> json" where
  "dict_key (JBool b) = JInt (if b then 1 else 0)"
| "dict_key (JFloat (Finite x)) =
     (if x = of_int \<lfloor>x\<rfloor> then JInt \<lfloor>x\<rfloor> else JFloat (Finite x))"
| "dict_key v = v"

definition not_found :: "string \<Rightarrow> py_error" where
  "not_found name' = ValueError (''Theme '' @ [CHR 0x27] @ name' @ [CHR 0x27] @ '' not found'')"

definition unsupported_format :: "string \<Rightarrow> py_error" where
  "unsupported_format format = ValueError (''Unsupported format: '' @ format)"

text \<open>Every operation returns its result (or the exception) and the state it leaves.\<close>

definition create_theme ::
  "(json \<Rightarrow> string) \<Rightarrow> store \<Rightarrow> pydict \<Rightarrow> (py_error + Theme) \<times> store" where
  "create_theme pystr s theme_data =
     (case parse_theme theme_data of
        Inl e \<Rightarrow> (Inl e, s)
      | Inr theme \<Rightarrow>
          (let theme_file = py_format pystr (name theme) @ ''.json''
           in case write_error s theme_file of
                Some e \<Rightarrow> (Inl e, s)
              | None \<Rightarrow>
                  (let s1 = s\<lparr>files := (files s)(theme_file \<mapsto> JObj theme_data)\<rparr>
                   in if hashable (name theme)
                      then (Inr theme,
                            s1\<lparr>themes := (themes s1)(dict_key (name theme) \<mapsto> theme)\<rparr>)
                      else (Inl TypeError, s1))))"

definition get_theme :: "store \<Rightarrow> string \<Rightarrow> Theme option" where
  "get_theme s name' = themes s (JStr name')"

definition update_theme :: "store \<Rightarrow> string \<Rightarrow> pydict \<Rightarrow> (py_error + Theme) \<times> store" where
  "update_theme s name' theme_data =
     (case themes s (JStr name') of
        None \<Rightarrow> (Inl (not_found name'), s)
      | Some _ \<Rightarrow>
          (case parse_theme theme_data of
             Inl e \<Rightarrow> (Inl e, s)
           | Inr theme \<Rightarrow>
               (let theme_file = name' @ ''.json''
                in case write_error s theme_file of
                     Some e \<Rightarrow> (Inl e, s)
                   | None \<Rightarrow>
                       (let s1 = s\<lparr>files := (files s)(theme_file \<mapsto> JObj theme_data)\<rparr>
                        in (Inr theme, s1\<lparr>themes := (themes s1)(JStr name' \<mapsto> theme)\<rparr>)))))"

definition delete_theme :: "store \<Rightarrow> string \<Rightarrow> (py_error + unit) \<times> store" where
  "delete_theme s name' =
     (case themes s (JStr name') of
        None \<Rightarrow> (Inl (not_found name'), s)
      | Some _ \<Rightarrow>
          (let theme_file = name' @ ''.json''
           in case files s theme_file of
                None \<Rightarrow> (Inl (FileNotFoundError theme_file), s)
              | Some _ \<Rightarrow>
                  (Inr (), s\<lparr>files := (files s)(theme_file := None),
                             themes := (themes s)(JStr name' := None)\<rparr>)))"

text \<open>\<^verbatim>\<open>export_theme\<close> assigns nothing: it is a function of the state and returns no
  new one.  (A \<^verbatim>\<open>Theme\<close> object is always true, so \<^verbatim>\<open>if not theme\<close> tests for
  \<^verbatim>\<open>None\<close>.)\<close>

definition export_theme :: "(json \<Rightarrow> string) \<Rightarrow> store \<Rightarrow> string \<Rightarrow> string \<Rightarrow> py_error + string" where
  "export_theme pystr s name' format =
     (case get_theme s name' of
        None \<Rightarrow> Inl (not_found name')
      | Some theme \<Rightarrow>
          if format = ''css'' then export_css pystr theme
          else if format = ''scss'' then export_scss pystr theme
          else Inl (unsupported_format format))"

text \<open>
  \<^verbatim>\<open>ThemeManager._load_themes\<close>, run by \<^verbatim>\<open>__init__\<close>.  The list \<open>listing\<close> holds the
  paths of the files in the order the file system gives them;
  \<^verbatim>\<open>self.themes_dir.glob("*.json")\<close> yields those that lie in \<^verbatim>\<open>themes_dir\<close> itself
  (no \<^verbatim>\<open>/\<close> in the path) and end in \<^verbatim>\<open>.json\<close>.  In
  \<^verbatim>\<open>self.themes[theme_data["name"]] = self._parse_theme(theme_data)\<close> the right-hand side
  is evaluated first; a file that does not hold a dict fails at its first subscript.
\<close>

definition glob_json :: "string list \<Rightarrow> string list" where
  "glob_json listing = filter (\<lambda>p. CHR ''/'' \<notin> set p \<and> suffix ''.json'' p) listing"

definition load_theme_file :: "(json \<rightharpoonup> Theme) \<Rightarrow> json \<Rightarrow> py_error + (json \<rightharpoonup> Theme)" where
  "load_theme_file index theme_data =
     bind_exc (case theme_data of JObj d \<Rightarrow> parse_theme d | _ \<Rightarrow> Inl TypeError) (\<lambda>theme.
     bind_exc (getitem theme_data ''name'') (\<lambda>k.
       if hashable k then Inr (index(dict_key k \<mapsto> theme)) else Inl TypeError))"

fun load_themes_loop ::
  "(string \<rightharpoonup> json) \<Rightarrow> string list \<Rightarrow> (json \<rightharpoonup> Theme) \<Rightarrow> py_error + (json \<rightharpoonup> Theme)" where
  "load_themes_loop fs [] index = Inr index"
| "load_themes_loop fs (theme_file # rest) index =
     (case fs theme_file of
        None \<Rightarrow> Inl (FileNotFoundError theme_file)
      | Some theme_data \<Rightarrow>
          bind_exc (load_theme_file index theme_data) (\<lambda>index'.
            load_themes_loop fs rest index'))"

definition load_themes :: "string list \<Rightarrow> store \<Rightarrow> py_error + store" where
  "load_themes listing s =
     bind_exc (load_themes_loop (files s) (glob_json listing) Map.empty) (\<lambda>index.
       Inr (s\<lparr>themes := index\<rparr>))"


section \<open>Equality of values and of themes\<close>










section \<open>Notions of the specification\<close>

text \<open>
  The specification's error classes, read on the exceptions of the code: a
  \<open>ValidationFailure\<close> is any exception that \<^verbatim>\<open>_parse_theme\<close> lets escape (a missing
  key, a value of the wrong shape, a scheme that is no member of the enum, wrong keyword
  arguments); NotFound, UnsupportedFormat and UnsupportedTarget are the three
  \<^verbatim>\<open>ValueError\<close>s with their messages (\<open>not_found\<close>, \<open>unsupported_format\<close>,
  \<open>unsupported_framework\<close>).
\<close>

definition ValidationFailure :: "py_error \<Rightarrow> bool" where
  "ValidationFailure e =
     (case e of KeyError _ \<Rightarrow> True | TypeError \<Rightarrow> True | AttributeError \<Rightarrow> True
      | EnumValueError _ \<Rightarrow> True | _ \<Rightarrow> False)"

text \<open>The keys that claim C3 lists as required, each with its nested keys: a nested key
  is present when the value of its parent is a dict that has it.\<close>

definition has_key :: "json \<Rightarrow> string \<Rightarrow> bool" where
  "has_key v k = (case v of JObj d \<Rightarrow> map_of d k \<noteq> None | _ \<Rightarrow> False)"

definition has_keys :: "pydict \<Rightarrow> string \<Rightarrow> string list \<Rightarrow> bool" where
  "has_keys theme_data k subkeys =
     (case map_of theme_data k of None \<Rightarrow> False | Some v \<Rightarrow> list_all (has_key v) subkeys)"

definition required_keys_present :: "pydict \<Rightarrow> bool" where
  "required_keys_present theme_data =
     (has_keys theme_data ''name'' [] \<and>
      has_keys theme_data ''color_schemes'' [] \<and>
      has_keys theme_data ''typography''
        [''font_family'', ''font_size_base'', ''line_height_base'', ''headings'', ''body''] \<and>
      has_keys theme_data ''spacing'' [''unit'', ''scale'', ''custom''] \<and>
      has_keys theme_data ''breakpoints'' [])"

text \<open>A value supplies exactly the given names when it is a dict whose keys are those
  names, no more and no fewer.\<close>

definition supplies_exactly :: "string list \<Rightarrow> json \<Rightarrow> bool" where
  "supplies_exactly fnames v =
     (case v of JObj d \<Rightarrow> set (map fst d) = set fnames | _ \<Rightarrow> False)"

text \<open>
  A variable entry of an export is a line that declares a value: it has the form
  \<^verbatim>\<open>key: value;\<close> (a CSS custom property, an SCSS variable) or \<^verbatim>\<open>key: value,\<close> (an
  entry of an SCSS map).  The lines that only open or close a block (\<^verbatim>\<open>:root {\<close>,
  \<^verbatim>\<open>$spacing: (\<close>, \<^verbatim>\<open>),\<close> and the like) are not.  \<open>entry_count\<close> counts the entries
  among the lines an export appends; \<open>expected_entries\<close> is the number the specification
  gives: nine palette slots per scheme, the typography entries (three scalars and one per
  heading property), the spacing entries (the unit and one per value of the scale) and
  the six breakpoints.
\<close>

definition variable_entry :: "string \<Rightarrow> bool" where
  "variable_entry line =
     (line \<noteq> [] \<and> (last line = CHR '';'' \<or> last line = CHR '','') \<and> sublist '': '' line)"

definition entry_count :: "string list \<Rightarrow> nat" where
  "entry_count lines = length (filter variable_entry lines)"

definition heading_entries :: "pydict \<Rightarrow> nat" where
  "heading_entries hs =
     sum_list (map (\<lambda>(heading, props'). case props' of JObj d \<Rightarrow> length d | _ \<Rightarrow> 0) hs)"

definition typography_entries :: "Theme \<Rightarrow> nat" where
  "typography_entries theme =
     3 + (case headings (typography theme) of JObj hs \<Rightarrow> heading_entries hs | _ \<Rightarrow> 0)"

definition spacing_entries :: "Theme \<Rightarrow> nat" where
  "spacing_entries theme =
     1 + (case iter (scale (spacing theme)) of Inr vals \<Rightarrow> length vals | Inl _ \<Rightarrow> 0)"

definition expected_entries :: "Theme \<Rightarrow> nat" where
  "expected_entries theme =
     length (color_schemes theme) * 9
     + typography_entries theme + spacing_entries theme + 6"



section \<open>Example data\<close>

text \<open>
  Instances of the parameters \<open>pystr\<close> and \<open>pylower\<close> for the closed examples below:
  \<^verbatim>\<open>str\<close> on \<^verbatim>\<open>None\<close>, booleans and integers, and \<^verbatim>\<open>str.lower\<close> on ASCII letters.
  (How Python prints a float, a list or a dict is not modelled; no example formats
  one.)
\<close>

fun scalar_str :: "json \<Rightarrow> string" where
  "scalar_str JNull = ''None''"
| "scalar_str (JBool b) = (if b then ''True'' else ''False'')"
| "scalar_str (JInt i) = (if i < 0 then ''-'' @ string_of_nat (nat (- i)) else string_of_nat (nat i))"
| "scalar_str (JFloat _) = []"
| "scalar_str (JStr s) = s"
| "scalar_str (JArr _) = []"
| "scalar_str (JObj _) = []"

definition ascii_lower :: "string \<Rightarrow> string" where
  "ascii_lower s =
     map (\<lambda>c. let n = of_char c :: nat in if 65 \<le> n \<and> n \<le> 90 then char_of (n + 32) else c) s"

text \<open>A valid payload with one light scheme and no key \<^verbatim>\<open>custom\<close>, and the theme it
  parses to; \<open>payload_with\<close> lets the examples vary its schemes, typography and
  breakpoints.\<close>

definition example_palette :: pydict where
  "example_palette =
     [(''primary'', JStr ''#000''), (''secondary'', JStr ''#111''), (''accent'', JStr ''#222''),
      (''background'', JStr ''#fff''), (''text'', JStr ''#333''), (''error'', JStr ''#f00''),
      (''warning'', JStr ''#fa0''), (''success'', JStr ''#0f0''), (''info'', JStr ''#00f'')]"

definition example_typography :: pydict where
  "example_typography =
     [(''font_family'', JStr ''Inter''), (''font_size_base'', JStr ''16px''),
      (''line_height_base'', JStr ''1.5''),
      (''headings'', JObj [(''h1'', JObj [(''font-size'', JStr ''2rem''),
                                          (''font-weight'', JStr ''700'')])]),
      (''body'', JObj [(''font-size'', JStr ''1rem'')])]"

definition example_breakpoints :: pydict where
  "example_breakpoints =
     [(''xs'', JStr ''0''), (''sm'', JStr ''576px''), (''md'', JStr ''768px''),
      (''lg'', JStr ''992px''), (''xl'', JStr ''1200px''), (''xxl'', JStr ''1400px'')]"

definition payload_with :: "string \<Rightarrow> pydict \<Rightarrow> pydict \<Rightarrow> pydict \<Rightarrow> pydict" where
  "payload_with n schemes typo bps =
     [(''name'', JStr n),
      (''color_schemes'', JObj schemes),
      (''typography'', JObj typo),
      (''spacing'', JObj [(''unit'', JStr ''4px''),
                          (''scale'', JArr [JStr ''0'', JStr ''4px'', JStr ''8px'']),
                          (''custom'', JObj [])]),
      (''breakpoints'', JObj bps)]"

definition example_payload :: "string \<Rightarrow> pydict" where
  "example_payload n =
     payload_with n [(''light'', JObj example_palette)] example_typography example_breakpoints"

definition example_theme :: "string \<Rightarrow> Theme" where
  "example_theme n =
     \<lparr>name = JStr n,
      color_schemes =
        [(LIGHT, \<lparr>primary = JStr ''#000'', secondary = JStr ''#111'', accent = JStr ''#222'',
                   background = JStr ''#fff'', text' = JStr ''#333'', error = JStr ''#f00'',
                   warning = JStr ''#fa0'', success = JStr ''#0f0'', info = JStr ''#00f''\<rparr>)],
      typography =
        \<lparr>font_family = JStr ''Inter'', font_size_base = JStr ''16px'',
         line_height_base = JStr ''1.5'',
         headings = JObj [(''h1'', JObj [(''font-size'', JStr ''2rem''),
                                         (''font-weight'', JStr ''700'')])],
         body = JObj [(''font-size'', JStr ''1rem'')]\<rparr>,
      spacing = \<lparr>unit = JStr ''4px'', scale = JArr [JStr ''0'', JStr ''4px'', JStr ''8px''],
                 Spacing.custom = JObj []\<rparr>,
      breakpoints = \<lparr>xs = JStr ''0'', sm = JStr ''576px'', md = JStr ''768px'',
                     lg = JStr ''992px'', xl = JStr ''1200px'', xxl = JStr ''1400px''\<rparr>,
      custom = JObj []\<rparr>"

text \<open>Malformed payloads: a typography without \<^verbatim>\<open>body\<close>, a scheme named \<^verbatim>\<open>sepia\<close>, a
  palette without \<^verbatim>\<open>info\<close>, breakpoints with a seventh name.\<close>

definition payload_missing_body :: pydict where
  "payload_missing_body =
     payload_with ''default'' [(''light'', JObj example_palette)]
       [(''font_family'', JStr ''Inter''), (''font_size_base'', JStr ''16px''),
        (''line_height_base'', JStr ''1.5''), (''headings'', JObj [])]
       example_breakpoints"

definition payload_sepia :: pydict where
  "payload_sepia =
     payload_with ''default'' [(''sepia'', JObj example_palette)] example_typography
       example_breakpoints"

definition payload_eight_slots :: pydict where
  "payload_eight_slots =
     payload_with ''default'' [(''light'', JObj (butlast example_palette))] example_typography
       example_breakpoints"

definition payload_seven_breakpoints :: pydict where
  "payload_seven_breakpoints =
     payload_with ''default'' [(''light'', JObj example_palette)] example_typography
       (example_breakpoints @ [(''xxxl'', JStr ''1600px'')])"



definition svelte_unregistered :: UIGenerator where
  "svelte_unregistered = UIGenerator_init\<lparr>adapters := (adapters UIGenerator_init)(SVELTE := None)\<rparr>"

text \<open>
  The file system of the examples: \<^verbatim>\<open>themes_dir\<close> has no subdirectory, so a path whose
  first component names one cannot be opened; every other path can.  \<open>empty_store\<close> is a
  store with no theme and no file there, \<open>example_store\<close> the store after creating the
  example theme in it.
\<close>

definition no_subdirectory :: "string \<Rightarrow> py_error option" where
  "no_subdirectory p =
     (if CHR ''/'' \<in> set p \<and> takeWhile (\<lambda>c. c \<noteq> CHR ''/'') p \<notin> {[], ''.'', ''..''}
      then Some (FileNotFoundError p) else None)"

definition empty_store :: store where
  "empty_store = \<lparr>themes = Map.empty, files = Map.empty, write_error = no_subdirectory\<rparr>"

definition example_store :: store where
  "example_store = snd (create_theme scalar_str empty_store (example_payload ''default''))"

text \<open>\<open>moved_store m\<close> is the example store after \<^verbatim>\<open>update_theme("default", payload)\<close>
  with the example payload named \<open>m\<close> and a restart of the store (a new
  \<^verbatim>\<open>ThemeManager\<close> on the same directory): the theme is indexed under \<open>m\<close>, its record
  is still \<^verbatim>\<open>default.json\<close>.\<close>

definition moved_store :: "string \<Rightarrow> store" where
  "moved_store m =
     \<lparr>themes = [JStr m \<mapsto> example_theme m],
      files = [''default.json'' \<mapsto> JObj (example_payload m)],
      write_error = no_subdirectory\<rparr>"

text \<open>\<open>renamed_store\<close> is the example store after
  \<^verbatim>\<open>update_theme("default", payload)\<close> with a valid payload whose name is
  \<^verbatim>\<open>other\<close>.\<close>

definition renamed_store :: store where
  "renamed_store = snd (update_theme example_store ''default'' (example_payload ''other''))"

text \<open>The component of the specification's scenario, and a component with it as its
  only child.\<close>

definition Button :: ComponentDefinition where
  "Button = ComponentDefinition ''Button'' [(''label'', JStr ''string'')] []
              [(''color'', JStr ''red'')] []"

definition Card :: ComponentDefinition where
  "Card = ComponentDefinition ''Card'' [(''title'', JStr ''string'')] [Button]
            [(''margin'', JStr ''4px'')] []"




section \<open>Facts about the exception monad and the lookups\<close>

lemma bind_exc_simps [simp]:
  "bind_exc (Inl e) f = Inl e"
  "bind_exc (Inr v) f = f v"
  by (simp_all add: bind_exc_def)

lemma bind_exc_Inr_iff: "bind_exc m f = Inr y \<longleftrightarrow> (\<exists>v. m = Inr v \<and> f v = Inr y)"
  by (cases m) simp_all

lemma bind_exc_Inl_iff: "bind_exc m f = Inl e \<longleftrightarrow> m = Inl e \<or> (\<exists>v. m = Inr v \<and> f v = Inl e)"
  by (cases m) simp_all

lemma dict_getitem_Inr_iff: "dict_getitem d k = Inr v \<longleftrightarrow> map_of d k = Some v"
  by (simp add: dict_getitem_def split: option.splits)

lemma getitem_Inr_iff: "getitem w k = Inr v \<longleftrightarrow> (\<exists>d. w = JObj d \<and> map_of d k = Some v)"
  by (cases w) (simp_all add: getitem_def dict_getitem_Inr_iff)

lemma getitem2_Inr_iff:
  "getitem2 td k1 k2 = Inr v \<longleftrightarrow> (\<exists>d. map_of td k1 = Some (JObj d) \<and> map_of d k2 = Some v)"
  by (auto simp: getitem2_def bind_exc_Inr_iff dict_getitem_Inr_iff getitem_Inr_iff)

lemma items_Inr_iff: "items v = Inr d \<longleftrightarrow> v = JObj d"
  by (cases v) (simp_all add: items_def)

lemma kwarg_Inr_iff: "kwarg d k = Inr v \<longleftrightarrow> map_of d k = Some v"
  by (simp add: kwarg_def split: option.splits)

lemma kwargs_Inr_iff:
  "kwargs fnames v = Inr d \<longleftrightarrow> v = JObj d \<and> fst ` set d \<subseteq> set fnames"
  by (cases v) (auto simp: kwargs_def list_all_iff)

lemma map_of_Some_key: "map_of d k = Some v \<Longrightarrow> k \<in> fst ` set d"
  by (metis domI dom_map_of_conv_image_fst)

lemma ColorPalette_init_Inr:
  assumes "ColorPalette_init colors = Inr p"
  shows "supplies_exactly ColorPalette_fields colors"
proof -
  from assms obtain d where d: "colors = JObj d" "fst ` set d \<subseteq> set ColorPalette_fields"
    and k: "\<forall>k \<in> set ColorPalette_fields. \<exists>v. map_of d k = Some v"
    unfolding ColorPalette_init_def bind_exc_Inr_iff kwargs_Inr_iff kwarg_Inr_iff
    by (auto simp: ColorPalette_fields_def)
  from k have "set ColorPalette_fields \<subseteq> fst ` set d"
    by (auto dest: map_of_Some_key)
  with d show ?thesis
    by (simp add: supplies_exactly_def)
qed

lemma Breakpoints_init_Inr:
  assumes "Breakpoints_init b = Inr p"
  shows "supplies_exactly Breakpoints_fields b"
proof -
  from assms obtain d where d: "b = JObj d" "fst ` set d \<subseteq> set Breakpoints_fields"
    and k: "\<forall>k \<in> set Breakpoints_fields. \<exists>v. map_of d k = Some v"
    unfolding Breakpoints_init_def bind_exc_Inr_iff kwargs_Inr_iff kwarg_Inr_iff
    by (auto simp: Breakpoints_fields_def)
  from k have "set Breakpoints_fields \<subseteq> fst ` set d"
    by (auto dest: map_of_Some_key)
  with d show ?thesis
    by (simp add: supplies_exactly_def)
qed

lemma ColorScheme_call_Inr: "ColorScheme_call s = Inr k \<Longrightarrow> s = ''light'' \<or> s = ''dark''"
  by (simp add: ColorScheme_call_def split: if_splits)

lemma color_schemes_comp_Inr:
  assumes "color_schemes_comp its acc = Inr r" and "(scheme, colors) \<in> set its"
  shows "(scheme = ''light'' \<or> scheme = ''dark'') \<and> supplies_exactly ColorPalette_fields colors"
  using assms
proof (induction its acc rule: color_schemes_comp.induct)
  case (1 acc)
  then show ?case by simp
next
  case (2 s c rest acc)
  from "2.prems"(1) obtain k p where k: "ColorScheme_call s = Inr k"
    and p: "ColorPalette_init c = Inr p"
    and r: "color_schemes_comp rest (dict_setitem acc k p) = Inr r"
    by (auto simp: bind_exc_Inr_iff)
  show ?case
  proof (cases "(scheme, colors) = (s, c)")
    case True
    with k p show ?thesis
      by (auto dest: ColorScheme_call_Inr ColorPalette_init_Inr)
  next
    case False
    with "2.prems"(2) have "(scheme, colors) \<in> set rest" by auto
    with "2.IH"[OF r] show ?thesis by simp
  qed
qed

lemma parse_theme_Inr:
  assumes "parse_theme td = Inr t"
  obtains cs b where
    "map_of td ''color_schemes'' = Some (JObj cs)"
    "color_schemes_comp cs [] = Inr (color_schemes t)"
    "parse_typography td = Inr (typography t)"
    "parse_spacing td = Inr (spacing t)"
    "map_of td ''breakpoints'' = Some b"
    "Breakpoints_init b = Inr (breakpoints t)"
    "map_of td ''name'' = Some (name t)"
    "custom t = dict_get_default td ''custom'' (JObj [])"
  using assms unfolding parse_theme_def bind_exc_Inr_iff dict_getitem_Inr_iff items_Inr_iff
  by auto

lemma parse_typography_Inr:
  assumes "parse_typography td = Inr ty"
  obtains d where "map_of td ''typography'' = Some (JObj d)"
    "map_of d ''font_family'' = Some (font_family ty)"
    "map_of d ''font_size_base'' = Some (font_size_base ty)"
    "map_of d ''line_height_base'' = Some (line_height_base ty)"
    "map_of d ''headings'' = Some (headings ty)"
    "map_of d ''body'' = Some (body ty)"
  using assms unfolding parse_typography_def bind_exc_Inr_iff getitem2_Inr_iff
  by auto

lemma parse_spacing_Inr:
  assumes "parse_spacing td = Inr sp"
  obtains d where "map_of td ''spacing'' = Some (JObj d)"
    "map_of d ''unit'' = Some (unit sp)"
    "map_of d ''scale'' = Some (scale sp)"
    "map_of d ''custom'' = Some (Spacing.custom sp)"
  using assms unfolding parse_spacing_def bind_exc_Inr_iff getitem2_Inr_iff
  by auto

lemma parse_theme_required:
  assumes "parse_theme td = Inr t"
  shows "required_keys_present td"
proof -
  from assms obtain cs b where
    1: "map_of td ''color_schemes'' = Some (JObj cs)"
       "map_of td ''breakpoints'' = Some b" "map_of td ''name'' = Some (name t)"
    and ty: "parse_typography td = Inr (typography t)"
    and sp: "parse_spacing td = Inr (spacing t)"
    by (rule parse_theme_Inr)
  from ty have 2: "has_keys td ''typography''
        [''font_family'', ''font_size_base'', ''line_height_base'', ''headings'', ''body'']"
    by (rule parse_typography_Inr) (simp add: has_keys_def has_key_def)
  from sp have 3: "has_keys td ''spacing'' [''unit'', ''scale'', ''custom'']"
    by (rule parse_spacing_Inr) (simp add: has_keys_def has_key_def)
  from 1 2 3 show ?thesis
    by (simp add: required_keys_present_def has_keys_def)
qed

lemma ValidationFailure_simps [simp]:
  "ValidationFailure (KeyError k)" "ValidationFailure TypeError"
  "ValidationFailure AttributeError" "ValidationFailure (EnumValueError s)"
  "\<not> ValidationFailure (ValueError m)" "\<not> ValidationFailure (FileNotFoundError f)"
  "\<not> ValidationFailure SyntaxError"
  by (simp_all add: ValidationFailure_def)

lemma dict_getitem_Inl: "dict_getitem d k = Inl e \<Longrightarrow> ValidationFailure e"
  by (auto simp: dict_getitem_def split: option.splits)

lemma getitem_Inl: "getitem v k = Inl e \<Longrightarrow> ValidationFailure e"
  by (cases v) (auto simp: getitem_def dest: dict_getitem_Inl)

lemma getitem2_Inl: "getitem2 td k1 k2 = Inl e \<Longrightarrow> ValidationFailure e"
  by (auto simp: getitem2_def bind_exc_Inl_iff dest: dict_getitem_Inl getitem_Inl)

lemma items_Inl: "items v = Inl e \<Longrightarrow> ValidationFailure e"
  by (cases v) (auto simp: items_def)

lemma kwargs_Inl: "kwargs fnames v = Inl e \<Longrightarrow> ValidationFailure e"
  by (cases v) (auto simp: kwargs_def split: if_splits)

lemma kwarg_Inl: "kwarg d k = Inl e \<Longrightarrow> ValidationFailure e"
  by (auto simp: kwarg_def split: option.splits)

lemma ColorScheme_call_Inl: "ColorScheme_call s = Inl e \<Longrightarrow> ValidationFailure e"
  by (auto simp: ColorScheme_call_def split: if_splits)

lemma ColorPalette_init_Inl: "ColorPalette_init c = Inl e \<Longrightarrow> ValidationFailure e"
  unfolding ColorPalette_init_def bind_exc_Inl_iff
  by (auto dest: kwargs_Inl kwarg_Inl)

lemma Breakpoints_init_Inl: "Breakpoints_init c = Inl e \<Longrightarrow> ValidationFailure e"
  unfolding Breakpoints_init_def bind_exc_Inl_iff
  by (auto dest: kwargs_Inl kwarg_Inl)

lemma color_schemes_comp_Inl: "color_schemes_comp its acc = Inl e \<Longrightarrow> ValidationFailure e"
proof (induction its acc rule: color_schemes_comp.induct)
  case (1 acc)
  then show ?case by simp
next
  case (2 s c rest acc)
  then show ?case
    by (auto simp: bind_exc_Inl_iff dest: ColorScheme_call_Inl ColorPalette_init_Inl)
qed

lemma parse_typography_Inl: "parse_typography td = Inl e \<Longrightarrow> ValidationFailure e"
  unfolding parse_typography_def bind_exc_Inl_iff
  by (auto dest: getitem2_Inl)

lemma parse_spacing_Inl: "parse_spacing td = Inl e \<Longrightarrow> ValidationFailure e"
  unfolding parse_spacing_def bind_exc_Inl_iff
  by (auto dest: getitem2_Inl)

lemma parse_theme_Inl: "parse_theme td = Inl e \<Longrightarrow> ValidationFailure e"
  unfolding parse_theme_def bind_exc_Inl_iff
  by (auto dest: dict_getitem_Inl items_Inl color_schemes_comp_Inl parse_typography_Inl
      parse_spacing_Inl Breakpoints_init_Inl)

section \<open>Facts about the examples\<close>

lemma ColorPalette_init_example:
  "ColorPalette_init (JObj example_palette) =
     Inr \<lparr>primary = JStr ''#000'', secondary = JStr ''#111'', accent = JStr ''#222'',
          background = JStr ''#fff'', text' = JStr ''#333'', error = JStr ''#f00'',
          warning = JStr ''#fa0'', success = JStr ''#0f0'', info = JStr ''#00f''\<rparr>"
  by (simp add: ColorPalette_init_def kwargs_def kwarg_def ColorPalette_fields_def
      example_palette_def)

lemma Breakpoints_init_example:
  "Breakpoints_init (JObj example_breakpoints) =
     Inr \<lparr>xs = JStr ''0'', sm = JStr ''576px'', md = JStr ''768px'',
          lg = JStr ''992px'', xl = JStr ''1200px'', xxl = JStr ''1400px''\<rparr>"
  by (simp add: Breakpoints_init_def kwargs_def kwarg_def Breakpoints_fields_def
      example_breakpoints_def)

lemma parse_typography_example:
  "parse_typography (payload_with n schemes example_typography bps) =
     Inr (typography (example_theme n))"
  by (simp add: parse_typography_def getitem2_def getitem_def dict_getitem_def payload_with_def
      example_typography_def example_theme_def)

lemma parse_spacing_example:
  "parse_spacing (payload_with n schemes typo bps) = Inr (spacing (example_theme n))"
  by (simp add: parse_spacing_def getitem2_def getitem_def dict_getitem_def payload_with_def
      example_theme_def)

lemma parse_theme_example: "parse_theme (example_payload n) = Inr (example_theme n)"
proof -
  have "parse_theme (example_payload n) =
      bind_exc (parse_typography (example_payload n)) (\<lambda>typography'.
      bind_exc (parse_spacing (example_payload n)) (\<lambda>spacing'.
        Inr \<lparr>name = JStr n, color_schemes = color_schemes (example_theme n),
             typography = typography', spacing = spacing',
             breakpoints = breakpoints (example_theme n), custom = JObj []\<rparr>))"
    by (simp add: parse_theme_def example_payload_def payload_with_def dict_getitem_def
        items_def ColorScheme_call_def ColorPalette_init_example Breakpoints_init_example
        dict_get_default_def example_theme_def)
  then show ?thesis
    by (simp add: example_payload_def parse_typography_example parse_spacing_example
        example_theme_def)
qed


lemma no_subdirectory_plain: "CHR ''/'' \<notin> set p \<Longrightarrow> no_subdirectory p = None"
  by (simp add: no_subdirectory_def)

lemma create_theme_example:
  assumes "write_error s (n @ ''.json'') = None"
  shows "create_theme pystr s (example_payload n) =
     (Inr (example_theme n),
      s\<lparr>files := (files s)(n @ ''.json'' \<mapsto> JObj (example_payload n)),
        themes := (themes s)(JStr n \<mapsto> example_theme n)\<rparr>)"
proof -
  have "name (example_theme n) = JStr n"
    by (simp add: example_theme_def)
  with assms show ?thesis
    by (simp add: create_theme_def parse_theme_example Let_def py_format_def)
qed

lemma example_store_eq:
  "example_store =
     \<lparr>themes = [JStr ''default'' \<mapsto> example_theme ''default''],
      files = [''default.json'' \<mapsto> JObj (example_payload ''default'')],
      write_error = no_subdirectory\<rparr>"
proof -
  have "write_error empty_store (''default'' @ ''.json'') = None"
    by (simp add: empty_store_def no_subdirectory_def)
  then show ?thesis
    by (simp add: example_store_def create_theme_example) (simp add: empty_store_def)
qed

lemma get_theme_example_store:
  "get_theme example_store ''default'' = Some (example_theme ''default'')"
  by (simp add: example_store_eq get_theme_def)

lemma update_theme_example:
  assumes "themes s (JStr n) = Some old" and "write_error s (n @ ''.json'') = None"
  shows "update_theme s n (example_payload m) =
     (Inr (example_theme m),
      s\<lparr>files := (files s)(n @ ''.json'' \<mapsto> JObj (example_payload m)),
        themes := (themes s)(JStr n \<mapsto> example_theme m)\<rparr>)"
  using assms by (simp add: update_theme_def parse_theme_example Let_def)

lemma load_theme_file_example:
  "load_theme_file index (JObj (example_payload m)) = Inr (index(JStr m \<mapsto> example_theme m))"
proof -
  have "getitem (JObj (example_payload m)) ''name'' = Inr (JStr m)"
    by (simp add: getitem_def dict_getitem_def example_payload_def payload_with_def)
  then show ?thesis
    by (simp add: load_theme_file_def parse_theme_example)
qed

lemma renamed_store_eq:
  "snd (update_theme example_store ''default'' (example_payload m)) =
     \<lparr>themes = [JStr ''default'' \<mapsto> example_theme m],
      files = [''default.json'' \<mapsto> JObj (example_payload m)],
      write_error = no_subdirectory\<rparr>"
proof -
  have "themes example_store (JStr ''default'') = Some (example_theme ''default'')"
    and "write_error example_store (''default'' @ ''.json'') = None"
    by (simp_all add: example_store_eq no_subdirectory_def)
  then have "update_theme example_store ''default'' (example_payload m) =
     (Inr (example_theme m),
      example_store\<lparr>files := (files example_store)(''default'' @ ''.json'' \<mapsto> JObj (example_payload m)),
        themes := (themes example_store)(JStr ''default'' \<mapsto> example_theme m)\<rparr>)"
    by (rule update_theme_example)
  then show ?thesis
    by (simp add: example_store_eq)
qed

lemma glob_json_default: "glob_json [''default.json''] = [''default.json'']"
  by (simp add: glob_json_def suffix_to_prefix)

lemma moved_store_reached:
  "load_themes [''default.json'']
     (snd (update_theme example_store ''default'' (example_payload m))) = Inr (moved_store m)"
  by (simp add: renamed_store_eq load_themes_def glob_json_default load_theme_file_example
      moved_store_def)

section \<open>Parsing: required keys (claim C3)\<close>

text \<open>
  Claim C3, as stated, says that a payload without the key \<^verbatim>\<open>custom\<close> fails to parse
  and that no missing field is ever default-filled.  The example payload has no key
  \<^verbatim>\<open>custom\<close>, and \<open>parse_theme\<close> returns a theme for it whose \<open>custom\<close> is the
  empty dict: \<^verbatim>\<open>theme_data.get("custom", {})\<close> supplies the default.
\<close>

theorem parse_theme_default_fills_custom:
  "map_of (example_payload ''default'') ''custom'' = None \<and>
   parse_theme (example_payload ''default'') = Inr (example_theme ''default'') \<and>
   custom (example_theme ''default'') = JObj []"
  using parse_theme_example [of "''default''"]
  by (simp add: example_payload_def payload_with_def example_theme_def)

text \<open>
  Claim C3, amended.  When one of the keys \<^verbatim>\<open>name\<close>, \<^verbatim>\<open>color_schemes\<close>,
  \<^verbatim>\<open>typography\<close> (with its five sub-keys), \<^verbatim>\<open>spacing\<close> (with its three sub-keys) or
  \<^verbatim>\<open>breakpoints\<close> is absent, \<open>parse_theme\<close> fails with a validation failure.  When it
  returns a theme, every required key is present and every field of the theme is the
  value the payload gives it (the fields of \<^verbatim>\<open>typography\<close> and \<^verbatim>\<open>spacing\<close> are the
  values under their keys); only \<^verbatim>\<open>custom\<close> is optional, an absent one being the
  empty dict.  So no theme is ever partially populated.
\<close>

theorem parse_theme_required_keys:
  "(\<not> required_keys_present theme_data \<longrightarrow>
      (\<exists>e. parse_theme theme_data = Inl e \<and> ValidationFailure e)) \<and>
   (\<forall>t. parse_theme theme_data = Inr t \<longrightarrow>
      required_keys_present theme_data \<and>
      dict_getitem theme_data ''name'' = Inr (name t) \<and>
      (\<exists>cs. dict_getitem theme_data ''color_schemes'' = Inr (JObj cs) \<and>
            color_schemes_comp cs [] = Inr (color_schemes t)) \<and>
      parse_typography theme_data = Inr (typography t) \<and>
      parse_spacing theme_data = Inr (spacing t) \<and>
      (\<exists>ty. map_of theme_data ''typography'' = Some (JObj ty) \<and>
            map_of ty ''font_family'' = Some (font_family (typography t)) \<and>
            map_of ty ''font_size_base'' = Some (font_size_base (typography t)) \<and>
            map_of ty ''line_height_base'' = Some (line_height_base (typography t)) \<and>
            map_of ty ''headings'' = Some (headings (typography t)) \<and>
            map_of ty ''body'' = Some (body (typography t))) \<and>
      (\<exists>sp. map_of theme_data ''spacing'' = Some (JObj sp) \<and>
            map_of sp ''unit'' = Some (unit (spacing t)) \<and>
            map_of sp ''scale'' = Some (scale (spacing t)) \<and>
            map_of sp ''custom'' = Some (Spacing.custom (spacing t))) \<and>
      (\<exists>b. dict_getitem theme_data ''breakpoints'' = Inr b \<and>
           Breakpoints_init b = Inr (breakpoints t)) \<and>
      custom t = (case map_of theme_data ''custom'' of None \<Rightarrow> JObj [] | Some v \<Rightarrow> v))"
proof (intro conjI impI allI)
  assume miss: "\<not> required_keys_present theme_data"
  show "\<exists>e. parse_theme theme_data = Inl e \<and> ValidationFailure e"
  proof (cases "parse_theme theme_data")
    case (Inl e)
    then show ?thesis by (auto dest: parse_theme_Inl)
  next
    case (Inr t)
    with miss show ?thesis by (auto dest: parse_theme_required)
  qed
next
  fix t assume ok: "parse_theme theme_data = Inr t"
  then show "required_keys_present theme_data" by (rule parse_theme_required)
  from ok show "dict_getitem theme_data ''name'' = Inr (name t)"
    by (rule parse_theme_Inr) (simp add: dict_getitem_Inr_iff)
  from ok show "\<exists>cs. dict_getitem theme_data ''color_schemes'' = Inr (JObj cs) \<and>
            color_schemes_comp cs [] = Inr (color_schemes t)"
    by (rule parse_theme_Inr) (simp add: dict_getitem_Inr_iff)
  from ok show "parse_typography theme_data = Inr (typography t)"
    by (rule parse_theme_Inr)
  from ok show "parse_spacing theme_data = Inr (spacing t)"
    by (rule parse_theme_Inr)
  from ok have "parse_typography theme_data = Inr (typography t)"
    by (rule parse_theme_Inr)
  then show "\<exists>ty. map_of theme_data ''typography'' = Some (JObj ty) \<and>
            map_of ty ''font_family'' = Some (font_family (typography t)) \<and>
            map_of ty ''font_size_base'' = Some (font_size_base (typography t)) \<and>
            map_of ty ''line_height_base'' = Some (line_height_base (typography t)) \<and>
            map_of ty ''headings'' = Some (headings (typography t)) \<and>
            map_of ty ''body'' = Some (body (typography t))"
    by (rule parse_typography_Inr) blast
  from ok have "parse_spacing theme_data = Inr (spacing t)"
    by (rule parse_theme_Inr)
  then show "\<exists>sp. map_of theme_data ''spacing'' = Some (JObj sp) \<and>
            map_of sp ''unit'' = Some (unit (spacing t)) \<and>
            map_of sp ''scale'' = Some (scale (spacing t)) \<and>
            map_of sp ''custom'' = Some (Spacing.custom (spacing t))"
    by (rule parse_spacing_Inr) blast
  from ok show "\<exists>b. dict_getitem theme_data ''breakpoints'' = Inr b \<and>
           Breakpoints_init b = Inr (breakpoints t)"
    by (rule parse_theme_Inr) (simp add: dict_getitem_Inr_iff)
  from ok show "custom t = (case map_of theme_data ''custom'' of None \<Rightarrow> JObj [] | Some v \<Rightarrow> v)"
    by (rule parse_theme_Inr) (simp add: dict_get_default_def)
qed

text \<open>
  The theorem for C3 at two payloads: one whose \<^verbatim>\<open>typography\<close> has no \<^verbatim>\<open>body\<close>, and the
  example payload, which parses.
\<close>

theorem parse_theme_required_keys_witness:
  "\<not> required_keys_present payload_missing_body \<and>
   (\<exists>e. parse_theme payload_missing_body = Inl e \<and> ValidationFailure e) \<and>
   parse_theme (example_payload ''default'') = Inr (example_theme ''default'') \<and>
   required_keys_present (example_payload ''default'') \<and>
   dict_getitem (example_payload ''default'') ''name'' = Inr (JStr ''default'') \<and>
   custom (example_theme ''default'') = JObj []"
proof -
  have miss: "\<not> required_keys_present payload_missing_body"
    by (simp add: required_keys_present_def has_keys_def has_key_def payload_missing_body_def
        payload_with_def)
  have ok: "parse_theme (example_payload ''default'') = Inr (example_theme ''default'')"
    by (rule parse_theme_example)
  from miss parse_theme_required_keys [of payload_missing_body]
  have 1: "\<exists>e. parse_theme payload_missing_body = Inl e \<and> ValidationFailure e"
    by blast
  from ok parse_theme_required_keys [of "example_payload ''default''"]
  have 2: "required_keys_present (example_payload ''default'') \<and>
      dict_getitem (example_payload ''default'') ''name'' = Inr (name (example_theme ''default'')) \<and>
      custom (example_theme ''default'') =
        (case map_of (example_payload ''default'') ''custom'' of None \<Rightarrow> JObj [] | Some v \<Rightarrow> v)"
    by blast
  from miss 1 ok 2 show ?thesis
    by (simp add: example_theme_def example_payload_def payload_with_def)
qed

section \<open>Parsing: palettes, schemes and breakpoints (claim C7)\<close>

text \<open>
  Claim C7.  \<open>parse_theme\<close> fails with a validation failure whenever some entry of
  \<^verbatim>\<open>color_schemes\<close> has a key other than \<^verbatim>\<open>light\<close> and \<^verbatim>\<open>dark\<close> or a palette that
  does not supply exactly the nine slots, and whenever \<^verbatim>\<open>breakpoints\<close> does not supply
  exactly the six names.
\<close>

theorem parse_theme_exact_slots:
  assumes "(\<exists>cs scheme colors.
              map_of theme_data ''color_schemes'' = Some (JObj cs) \<and> (scheme, colors) \<in> set cs \<and>
              ((scheme \<noteq> ''light'' \<and> scheme \<noteq> ''dark'') \<or>
               \<not> supplies_exactly ColorPalette_fields colors)) \<or>
           (\<exists>b. map_of theme_data ''breakpoints'' = Some b \<and>
                \<not> supplies_exactly Breakpoints_fields b)"
  shows "\<exists>e. parse_theme theme_data = Inl e \<and> ValidationFailure e"
proof (cases "parse_theme theme_data")
  case (Inl e)
  then show ?thesis by (auto dest: parse_theme_Inl)
next
  case (Inr t)
  then obtain cs b where cs: "map_of theme_data ''color_schemes'' = Some (JObj cs)"
    "color_schemes_comp cs [] = Inr (color_schemes t)"
    and b: "map_of theme_data ''breakpoints'' = Some b" "Breakpoints_init b = Inr (breakpoints t)"
    by (rule parse_theme_Inr)
  from cs(2) have "\<forall>(scheme, colors) \<in> set cs.
      (scheme = ''light'' \<or> scheme = ''dark'') \<and> supplies_exactly ColorPalette_fields colors"
    by (auto dest: color_schemes_comp_Inr)
  moreover from b(2) have "supplies_exactly Breakpoints_fields b"
    by (rule Breakpoints_init_Inr)
  ultimately have False
    using assms cs(1) b(1) by auto
  then show ?thesis ..
qed

lemma supplies_exactly_code:
  "supplies_exactly fnames (JObj d) =
     (list_all (\<lambda>k. k \<in> set fnames) (map fst d) \<and> list_all (\<lambda>f. f \<in> set (map fst d)) fnames)"
  by (auto simp: supplies_exactly_def list_all_iff)

lemma eight_slots_not_exact: "\<not> supplies_exactly ColorPalette_fields (JObj (butlast example_palette))"
  by (simp add: supplies_exactly_code ColorPalette_fields_def example_palette_def)

lemma seven_breakpoints_not_exact: "\<not> supplies_exactly Breakpoints_fields (JObj (example_breakpoints @ [(''xxxl'', JStr ''1600px'')]))"
  by (simp add: supplies_exactly_code Breakpoints_fields_def example_breakpoints_def)

text \<open>
  The theorem for C7 at three payloads: a scheme named \<^verbatim>\<open>sepia\<close>, a palette without
  \<^verbatim>\<open>info\<close>, and breakpoints with a seventh name.
\<close>

theorem parse_theme_exact_slots_witness:
  "(\<exists>e. parse_theme payload_sepia = Inl e \<and> ValidationFailure e) \<and>
   (\<exists>e. parse_theme payload_eight_slots = Inl e \<and> ValidationFailure e) \<and>
   (\<exists>e. parse_theme payload_seven_breakpoints = Inl e \<and> ValidationFailure e)"
proof (intro conjI)
  have "map_of payload_sepia ''color_schemes'' = Some (JObj [(''sepia'', JObj example_palette)]) \<and>
      (''sepia'', JObj example_palette) \<in> set [(''sepia'', JObj example_palette)] \<and>
      ''sepia'' \<noteq> ''light'' \<and> ''sepia'' \<noteq> ''dark''"
    by (simp add: payload_sepia_def payload_with_def)
  then show "\<exists>e. parse_theme payload_sepia = Inl e \<and> ValidationFailure e"
    by (intro parse_theme_exact_slots) blast
next
  have "map_of payload_eight_slots ''color_schemes'' =
        Some (JObj [(''light'', JObj (butlast example_palette))]) \<and>
      (''light'', JObj (butlast example_palette)) \<in> set [(''light'', JObj (butlast example_palette))] \<and>
      \<not> supplies_exactly ColorPalette_fields (JObj (butlast example_palette))"
    by (simp add: payload_eight_slots_def payload_with_def eight_slots_not_exact)
  then show "\<exists>e. parse_theme payload_eight_slots = Inl e \<and> ValidationFailure e"
    by (intro parse_theme_exact_slots) blast
next
  have "map_of payload_seven_breakpoints ''breakpoints'' =
        Some (JObj (example_breakpoints @ [(''xxxl'', JStr ''1600px'')])) \<and>
      \<not> supplies_exactly Breakpoints_fields (JObj (example_breakpoints @ [(''xxxl'', JStr ''1600px'')]))"
    by (simp add: payload_seven_breakpoints_def payload_with_def seven_breakpoints_not_exact)
  then show "\<exists>e. parse_theme payload_seven_breakpoints = Inl e \<and> ValidationFailure e"
    by (intro parse_theme_exact_slots) blast
qed

lemma parse_theme_sepia_error: "parse_theme payload_sepia = Inl (EnumValueError ''sepia'')"
  by (simp add: parse_theme_def payload_sepia_def payload_with_def dict_getitem_def
        items_def ColorScheme_call_def)

lemma parse_theme_eight_slots_error: "parse_theme payload_eight_slots = Inl TypeError"
  by (simp add: parse_theme_def payload_eight_slots_def payload_with_def dict_getitem_def
        items_def ColorScheme_call_def ColorPalette_init_def kwargs_def kwarg_def ColorPalette_fields_def example_palette_def)

section \<open>Counting the entries of an export\<close>

lemma variable_entryI:
  assumes "line = a @ '': '' @ b @ '';'' \<or> line = a @ '': '' @ b @ '',''"
  shows "variable_entry line"
proof -
  have "sublist '': '' (a @ '': '' @ (b @ c))" for c
    by (rule sublist_appendI)
  with assms show ?thesis
    by (auto simp: variable_entry_def)
qed

lemma not_entry_last:
  assumes "line = a @ [c]" and "c \<noteq> CHR '';''" and "c \<noteq> CHR '',''"
  shows "\<not> variable_entry line"
  using assms by (simp add: variable_entry_def)

lemma not_entry_structural:
  "\<not> variable_entry '':root {''" "\<not> variable_entry ''}''"
  "\<not> variable_entry ''$typography: (''" "\<not> variable_entry ''$spacing: (''"
  "\<not> variable_entry ''$breakpoints: (''"
  "\<not> variable_entry ''  ),''" "\<not> variable_entry '');''"
  by (simp_all add: variable_entry_def sublist_Cons_right)

lemma entry_count_simps [simp]:
  "entry_count [] = 0"
  "entry_count (l # ls) = (if variable_entry l then 1 else 0) + entry_count ls"
  "entry_count (ls @ ms) = entry_count ls + entry_count ms"
  by (simp_all add: entry_count_def)

lemma entry_count_all:
  assumes "\<And>l. l \<in> set ls \<Longrightarrow> variable_entry l"
  shows "entry_count ls = length ls"
  using assms by (induction ls) simp_all

lemma entry_count_map:
  assumes "\<And>x. x \<in> set ys \<Longrightarrow> variable_entry (f x)"
  shows "entry_count (map f ys) = length ys"
  using assms by (induction ys) simp_all

lemma css_color_line_entry:
  "variable_entry (''  --color-'' @ sv @ ''-'' @ color_name @ '': '' @ v @ '';'')"
  by (rule variable_entryI [where a = "''  --color-'' @ sv @ ''-'' @ color_name" and b = v]) simp

lemma scss_color_line_entry:
  "variable_entry (''$color-'' @ sv @ ''-'' @ color_name @ '': '' @ v @ '';'')"
  by (rule variable_entryI [where a = "''$color-'' @ sv @ ''-'' @ color_name" and b = v]) simp

lemma css_heading_line_entry:
  "variable_entry (''  --typography-'' @ heading @ ''-'' @ prop_name @ '': '' @ v @ '';'')"
  by (rule variable_entryI [where a = "''  --typography-'' @ heading @ ''-'' @ prop_name" and b = v])
    simp

lemma decl_line_entry:
  "variable_entry (pre @ k @ '': '' @ v @ '';'')" "variable_entry (pre @ k @ '': '' @ v @ '','')"
  by (rule variable_entryI [where a = "pre @ k" and b = v], simp)+

lemma scalar_line_entry: "variable_entry (pre @ v @ '';'')" if "sublist '': '' pre"
proof -
  from that have "sublist '': '' (pre @ v @ '';'')"
    by (metis sublist_append)
  then show ?thesis by (simp add: variable_entry_def)
qed

lemma css_color_lines_count:
  "entry_count (css_color_lines pystr schemes) = length schemes * 9"
proof (induction schemes)
  case Nil
  then show ?case by (simp add: css_color_lines_def)
next
  case (Cons sp schemes)
  obtain scheme palette where sp: "sp = (scheme, palette)" by (cases sp)
  have "css_color_lines pystr (sp # schemes) =
      map (\<lambda>(color_name, color_value).
              ''  --color-'' @ ColorScheme_value scheme @ ''-'' @ color_name @ '': ''
                @ py_format pystr color_value @ '';'')
           (ColorPalette_dict palette) @ css_color_lines pystr schemes"
    by (simp add: css_color_lines_def sp)
  moreover have "entry_count (map (\<lambda>(color_name, color_value).
              ''  --color-'' @ ColorScheme_value scheme @ ''-'' @ color_name @ '': ''
                @ py_format pystr color_value @ '';'')
           (ColorPalette_dict palette)) = length (ColorPalette_dict palette)"
    by (rule entry_count_map) (auto simp only: split_def intro: css_color_line_entry)
  ultimately show ?case
    using Cons.IH by (simp add: ColorPalette_dict_def ColorPalette_fields_def)
qed

lemma scss_color_lines_count:
  "entry_count (scss_color_lines pystr schemes) = length schemes * 9"
proof (induction schemes)
  case Nil
  then show ?case by (simp add: scss_color_lines_def)
next
  case (Cons sp schemes)
  obtain scheme palette where sp: "sp = (scheme, palette)" by (cases sp)
  have "scss_color_lines pystr (sp # schemes) =
      map (\<lambda>(color_name, color_value).
              ''$color-'' @ ColorScheme_value scheme @ ''-'' @ color_name @ '': ''
                @ py_format pystr color_value @ '';'')
           (ColorPalette_dict palette) @ scss_color_lines pystr schemes"
    by (simp add: scss_color_lines_def sp)
  moreover have "entry_count (map (\<lambda>(color_name, color_value).
              ''$color-'' @ ColorScheme_value scheme @ ''-'' @ color_name @ '': ''
                @ py_format pystr color_value @ '';'')
           (ColorPalette_dict palette)) = length (ColorPalette_dict palette)"
    by (rule entry_count_map) (auto simp only: split_def intro: scss_color_line_entry)
  ultimately show ?case
    using Cons.IH by (simp add: ColorPalette_dict_def ColorPalette_fields_def)
qed

lemma css_scale_lines_count: "entry_count (css_scale_lines pystr vals) = length vals"
proof -
  have "entry_count (css_scale_lines pystr vals) = length (enumerate 0 vals)"
    unfolding css_scale_lines_def
    by (rule entry_count_map) (auto simp only: split_def intro: decl_line_entry)
  then show ?thesis by simp
qed

lemma scss_scale_lines_count: "entry_count (scss_scale_lines pystr vals) = length vals"
proof -
  have "entry_count (scss_scale_lines pystr vals) = length (enumerate 0 vals)"
    unfolding scss_scale_lines_def
    by (rule entry_count_map) (auto simp only: split_def intro: decl_line_entry)
  then show ?thesis by simp
qed

lemma css_breakpoint_lines_count:
  "entry_count (css_breakpoint_lines pystr b) = 6"
proof -
  have "entry_count (css_breakpoint_lines pystr b) = length (Breakpoints_dict b)"
    unfolding css_breakpoint_lines_def
    by (rule entry_count_map) (auto simp only: split_def intro: decl_line_entry)
  then show ?thesis by (simp add: Breakpoints_dict_def Breakpoints_fields_def)
qed

lemma scss_breakpoint_lines_count:
  "entry_count (scss_breakpoint_lines pystr b) = 6"
proof -
  have "entry_count (scss_breakpoint_lines pystr b) = length (Breakpoints_dict b)"
    unfolding scss_breakpoint_lines_def
    by (rule entry_count_map) (auto simp only: split_def intro: decl_line_entry)
  then show ?thesis by (simp add: Breakpoints_dict_def Breakpoints_fields_def)
qed

lemma heading_entries_simps [simp]:
  "heading_entries [] = 0"
  "heading_entries ((heading, JObj d) # rest) = length d + heading_entries rest"
  by (simp_all add: heading_entries_def)

lemma css_heading_lines_count:
  "css_heading_lines pystr hs = Inr ls \<Longrightarrow> entry_count ls = heading_entries hs"
proof (induction pystr hs arbitrary: ls rule: css_heading_lines.induct)
  case (1 pystr)
  then show ?case by simp
next
  case (2 pystr heading props' rest)
  from "2.prems" obtain ps more where ps: "props' = JObj ps"
    and more: "css_heading_lines pystr rest = Inr more"
    and ls: "ls = map (\<lambda>(prop_name, prop_value).
                   ''  --typography-'' @ heading @ ''-'' @ prop_name @ '': ''
                     @ py_format pystr prop_value @ '';'') ps @ more"
    by (auto simp: bind_exc_Inr_iff items_Inr_iff)
  have "entry_count (map (\<lambda>(prop_name, prop_value).
                   ''  --typography-'' @ heading @ ''-'' @ prop_name @ '': ''
                     @ py_format pystr prop_value @ '';'') ps) = length ps"
    by (rule entry_count_map) (auto simp only: split_def intro: css_heading_line_entry)
  with "2.IH" [OF more] ps ls show ?case
    by (simp add: items_def)
qed

lemma scss_heading_lines_count:
  "scss_heading_lines pystr hs = Inr ls \<Longrightarrow> entry_count ls = heading_entries hs"
proof (induction pystr hs arbitrary: ls rule: scss_heading_lines.induct)
  case (1 pystr)
  then show ?case by simp
next
  case (2 pystr heading props' rest)
  from "2.prems" obtain ps more where ps: "props' = JObj ps"
    and more: "scss_heading_lines pystr rest = Inr more"
    and ls: "ls = [''  '' @ heading @ '': (''] @ map (\<lambda>(prop_name, prop_value).
                   ''    '' @ prop_name @ '': '' @ py_format pystr prop_value @ '','') ps
                 @ [''  ),''] @ more"
    by (auto simp: bind_exc_Inr_iff items_Inr_iff)
  have "entry_count (map (\<lambda>(prop_name, prop_value).
                   ''    '' @ prop_name @ '': '' @ py_format pystr prop_value @ '','') ps) = length ps"
    by (rule entry_count_map) (auto simp only: split_def intro: decl_line_entry)
  moreover have "\<not> variable_entry (''  '' @ heading @ '': ('')"
    by (rule not_entry_last [where a = "''  '' @ heading @ '': ''" and c = "CHR ''(''"]) simp_all
  ultimately show ?case
    using "2.IH" [OF more] ps ls
    by (simp add: items_def not_entry_structural del: append.simps)
qed

lemma heading_lines_errors:
  "css_heading_lines pystr hs = Inl e \<longleftrightarrow> scss_heading_lines pystr hs = Inl e"
proof (induction hs)
  case Nil
  then show ?case by simp
next
  case (Cons hp hs)
  obtain heading props' where hp: "hp = (heading, props')" by (cases hp)
  show ?case
  proof (cases "items props'")
    case (Inl e')
    then show ?thesis by (simp add: hp)
  next
    case (Inr ps)
    with Cons.IH show ?thesis
      by (cases "css_heading_lines pystr hs"; cases "scss_heading_lines pystr hs")
        (auto simp: hp)
  qed
qed

lemma export_lines_errors:
  "export_css_lines pystr theme = Inl e \<longleftrightarrow> export_scss_lines pystr theme = Inl e"
proof (cases "items (headings (typography theme))")
  case (Inl e')
  then show ?thesis by (simp add: export_css_lines_def export_scss_lines_def)
next
  case hs: (Inr hs)
  show ?thesis
  proof (cases "css_heading_lines pystr hs")
    case (Inl e')
    with heading_lines_errors [of pystr hs e'] hs show ?thesis
      by (simp add: export_css_lines_def export_scss_lines_def)
  next
    case c: (Inr cl)
    with heading_lines_errors [of pystr hs] obtain sl where s: "scss_heading_lines pystr hs = Inr sl"
      by (cases "scss_heading_lines pystr hs") auto
    show ?thesis
      by (cases "iter (scale (spacing theme))")
        (simp_all add: export_css_lines_def export_scss_lines_def hs c s)
  qed
qed

lemma export_css_lines_count:
  assumes "export_css_lines pystr theme = Inr css"
  shows "entry_count css = expected_entries theme"
proof -
  from assms obtain hs heading_lines vals where
    hs: "headings (typography theme) = JObj hs"
    and hl: "css_heading_lines pystr hs = Inr heading_lines"
    and vals: "iter (scale (spacing theme)) = Inr vals"
    and css: "css = ['':root {'']
            @ css_color_lines pystr (color_schemes theme)
            @ [''  --font-family: '' @ py_format pystr (font_family (typography theme)) @ '';'',
               ''  --font-size-base: '' @ py_format pystr (font_size_base (typography theme)) @ '';'',
               ''  --line-height-base: '' @ py_format pystr (line_height_base (typography theme)) @ '';'']
            @ heading_lines
            @ [''  --spacing-unit: '' @ py_format pystr (unit (spacing theme)) @ '';'']
            @ css_scale_lines pystr vals
            @ css_breakpoint_lines pystr (breakpoints theme)
            @ [''}'']"
    unfolding export_css_lines_def bind_exc_Inr_iff items_Inr_iff by auto
  have scalars:
    "variable_entry (''  --font-family: '' @ v @ '';'')"
    "variable_entry (''  --font-size-base: '' @ v @ '';'')"
    "variable_entry (''  --line-height-base: '' @ v @ '';'')"
    "variable_entry (''  --spacing-unit: '' @ v @ '';'')" for v
    by (rule scalar_line_entry, simp add: sublist_Cons_right)+
  show ?thesis
    unfolding css expected_entries_def typography_entries_def spacing_entries_def
    by (simp add: scalars not_entry_structural css_color_lines_count css_heading_lines_count [OF hl]
        css_scale_lines_count css_breakpoint_lines_count hs vals del: append.simps)
qed

lemma export_scss_lines_count:
  assumes "export_scss_lines pystr theme = Inr scss"
  shows "entry_count scss = expected_entries theme"
proof -
  from assms obtain hs heading_lines vals where
    hs: "headings (typography theme) = JObj hs"
    and hl: "scss_heading_lines pystr hs = Inr heading_lines"
    and vals: "iter (scale (spacing theme)) = Inr vals"
    and scss: "scss = scss_color_lines pystr (color_schemes theme)
            @ [''$font-family: '' @ py_format pystr (font_family (typography theme)) @ '';'',
               ''$font-size-base: '' @ py_format pystr (font_size_base (typography theme)) @ '';'',
               ''$line-height-base: '' @ py_format pystr (line_height_base (typography theme)) @ '';'']
            @ [''$typography: ('']
            @ heading_lines
            @ ['');'']
            @ [''$spacing-unit: '' @ py_format pystr (unit (spacing theme)) @ '';'']
            @ [''$spacing: ('']
            @ scss_scale_lines pystr vals
            @ ['');'']
            @ [''$breakpoints: ('']
            @ scss_breakpoint_lines pystr (breakpoints theme)
            @ ['');'']"
    unfolding export_scss_lines_def bind_exc_Inr_iff items_Inr_iff by auto
  have scalars:
    "variable_entry (''$font-family: '' @ v @ '';'')"
    "variable_entry (''$font-size-base: '' @ v @ '';'')"
    "variable_entry (''$line-height-base: '' @ v @ '';'')"
    "variable_entry (''$spacing-unit: '' @ v @ '';'')" for v
    by (rule scalar_line_entry, simp add: sublist_Cons_right)+
  show ?thesis
    unfolding scss expected_entries_def typography_entries_def spacing_entries_def
    by (simp add: scalars not_entry_structural scss_color_lines_count scss_heading_lines_count [OF hl]
        scss_scale_lines_count scss_breakpoint_lines_count hs vals del: append.simps)
qed

section \<open>CSS and SCSS exports have the same entries (claim C6)\<close>

text \<open>
  Claim C6.  For a theme of the store, \<^verbatim>\<open>export(name, "css")\<close> and
  \<^verbatim>\<open>export(name, "scss")\<close> are the lines of \<open>export_css_lines\<close> and
  \<open>export_scss_lines\<close> joined by newlines.  The two fail on the same themes with the same
  exception (a \<^verbatim>\<open>headings\<close> value that is not a dict of dicts, a \<^verbatim>\<open>scale\<close> that cannot
  be iterated), and when they return, both have the same number of variable entries:
  the number of schemes times nine, plus the typography entries, plus the spacing
  entries, plus six.
\<close>

theorem export_css_scss_same_entries:
  assumes "get_theme s n = Some theme"
  shows "export_theme pystr s n ''css'' =
           bind_exc (export_css_lines pystr theme) (\<lambda>css. Inr (join nl css)) \<and>
         export_theme pystr s n ''scss'' =
           bind_exc (export_scss_lines pystr theme) (\<lambda>scss. Inr (join nl scss)) \<and>
         (\<forall>e. export_css_lines pystr theme = Inl e \<longleftrightarrow> export_scss_lines pystr theme = Inl e) \<and>
         (\<forall>css. export_css_lines pystr theme = Inr css \<longrightarrow>
                entry_count css = expected_entries theme) \<and>
         (\<forall>scss. export_scss_lines pystr theme = Inr scss \<longrightarrow>
                entry_count scss = expected_entries theme)"
  using assms
  by (simp add: export_theme_def export_css_def export_scss_def export_lines_errors
      export_css_lines_count export_scss_lines_count)

lemma export_css_lines_example:
  "\<exists>css. export_css_lines scalar_str (example_theme ''default'') = Inr css"
  by (simp add: export_css_lines_def example_theme_def items_def iter_def)

lemma export_scss_lines_example:
  "\<exists>scss. export_scss_lines scalar_str (example_theme ''default'') = Inr scss"
  by (simp add: export_scss_lines_def example_theme_def items_def iter_def)

lemma expected_entries_example: "expected_entries (example_theme ''default'') = 24"
  by (simp add: expected_entries_def typography_entries_def spacing_entries_def iter_def
      example_theme_def ColorPalette_fields_def Breakpoints_fields_def)

text \<open>The theorem for C6 at the example theme: 9 + 5 + 4 + 6 = 24 entries in both
  formats.\<close>

theorem export_css_scss_same_entries_witness:
  "get_theme example_store ''default'' = Some (example_theme ''default'') \<and>
   (\<exists>css. export_css_lines scalar_str (example_theme ''default'') = Inr css \<and>
          entry_count css = 24) \<and>
   (\<exists>scss. export_scss_lines scalar_str (example_theme ''default'') = Inr scss \<and>
          entry_count scss = 24)"
  using export_css_scss_same_entries [OF get_theme_example_store, of scalar_str]
    export_css_lines_example export_scss_lines_example
  by (auto simp: get_theme_example_store expected_entries_example)

section \<open>Unsupported targets and formats, unknown names (claims C8 and C10)\<close>

lemma not_found_neq_unsupported_format: "not_found n \<noteq> unsupported_format format"
  by (simp add: not_found_def unsupported_format_def)

text \<open>
  Claim C8, as stated, says that \<^verbatim>\<open>export\<close> with a format other than css and scss
  raises UnsupportedFormat.  On a store that has no theme \<^verbatim>\<open>missing\<close>,
  \<^verbatim>\<open>export("missing", "json")\<close> raises NotFound instead: the name is looked up before
  the format is compared.
\<close>

theorem export_theme_unknown_name_bad_format:
  "export_theme scalar_str empty_store ''missing'' ''json'' = Inl (not_found ''missing'') \<and>
   not_found ''missing'' \<noteq> unsupported_format ''json''"
  by (simp add: export_theme_def get_theme_def empty_store_def not_found_neq_unsupported_format)

text \<open>
  Claim C8, amended.  \<open>generate_component\<close> with a target that the registry does not
  hold raises UnsupportedTarget and returns no text.  \<open>export_theme\<close>, for a name that is
  in the index, with a format other than css and scss raises UnsupportedFormat; it
  returns no state, so it changes none.  \<open>update_theme\<close> and \<open>delete_theme\<close> with a name
  that is not in the index raise NotFound and leave the index and the files as they
  were.
\<close>

theorem unsupported_and_unknown_leave_state:
  "(adapters g framework = None \<longrightarrow>
      generate_component pystr pylower g d framework = Inl (unsupported_framework framework)) \<and>
   (get_theme s n \<noteq> None \<and> format \<noteq> ''css'' \<and> format \<noteq> ''scss'' \<longrightarrow>
      export_theme pystr s n format = Inl (unsupported_format format)) \<and>
   (get_theme s n = None \<longrightarrow>
      update_theme s n theme_data = (Inl (not_found n), s) \<and>
      delete_theme s n = (Inl (not_found n), s))"
  by (auto simp: generate_component_def export_theme_def update_theme_def delete_theme_def
      get_theme_def)

text \<open>The theorem for C8 at a registry without Svelte, at the format \<^verbatim>\<open>less\<close> for the
  example theme, and at a name the example store does not have.\<close>

theorem unsupported_and_unknown_leave_state_witness:
  "adapters svelte_unregistered SVELTE = None \<and>
   generate_component scalar_str ascii_lower svelte_unregistered
       (ComponentDefinition ''Card'' [] [] [] []) SVELTE =
     Inl (ValueError ''Unsupported framework: UIFramework.SVELTE'') \<and>
   get_theme example_store ''default'' \<noteq> None \<and>
   export_theme scalar_str example_store ''default'' ''less'' =
     Inl (ValueError ''Unsupported format: less'') \<and>
   get_theme example_store ''missing'' = None \<and>
   update_theme example_store ''missing'' (example_payload ''missing'') =
     (Inl (not_found ''missing''), example_store) \<and>
   delete_theme example_store ''missing'' = (Inl (not_found ''missing''), example_store)"
proof -
  have 1: "adapters svelte_unregistered SVELTE = None"
    by (simp add: svelte_unregistered_def)
  have 2: "get_theme example_store ''default'' \<noteq> None \<and> ''less'' \<noteq> ''css'' \<and> ''less'' \<noteq> ''scss''"
    by (simp add: get_theme_example_store)
  have 3: "get_theme example_store ''missing'' = None"
    by (simp add: example_store_eq get_theme_def)
  from 1 2 3
    unsupported_and_unknown_leave_state [of svelte_unregistered SVELTE scalar_str ascii_lower
      "ComponentDefinition ''Card'' [] [] [] []" example_store "''default''" "''less''"]
    unsupported_and_unknown_leave_state [of svelte_unregistered SVELTE scalar_str ascii_lower
      "ComponentDefinition ''Card'' [] [] [] []" example_store "''missing''" "''less''"
      "example_payload ''missing''"]
  show ?thesis
    by (simp add: unsupported_framework_def unsupported_format_def)
qed

text \<open>
  Claim C10.  \<open>export_theme\<close> with a name that is not in the index raises NotFound
  whatever the format is, also when the format is not recognised: the result is never
  UnsupportedFormat.
\<close>

theorem export_theme_unknown_name:
  assumes "get_theme s n = None"
  shows "export_theme pystr s n format = Inl (not_found n) \<and>
         export_theme pystr s n format \<noteq> Inl (unsupported_format format)"
  using assms by (simp add: export_theme_def not_found_neq_unsupported_format)

text \<open>The theorem for C10 at a name the example store does not have, with an
  unrecognised format and with a recognised one.\<close>

theorem export_theme_unknown_name_witness:
  "get_theme example_store ''other'' = None \<and>
   export_theme scalar_str example_store ''other'' ''xml'' = Inl (not_found ''other'') \<and>
   export_theme scalar_str example_store ''other'' ''css'' = Inl (not_found ''other'')"
proof -
  have "get_theme example_store ''other'' = None"
    by (simp add: example_store_eq get_theme_def)
  with export_theme_unknown_name [of example_store "''other''" scalar_str "''xml''"]
    export_theme_unknown_name [of example_store "''other''" scalar_str "''css''"]
  show ?thesis by simp
qed

section \<open>Creating a theme whose name exists (claim C9)\<close>




section \<open>The round trip through a persisted record (claim C5)\<close>























section \<open>The index key and the name of a theme (claim C4)\<close>

text \<open>
  Claim C4 fails on the code.  \<open>update_theme\<close> stores the parsed theme under its
  argument \<^verbatim>\<open>name\<close> and writes the payload to the file of that name, without comparing
  it with the name in the payload.  In \<open>renamed_store\<close> (the example store after
  \<^verbatim>\<open>update_theme("default", payload)\<close> with a payload named \<^verbatim>\<open>other\<close>) the index key
  \<^verbatim>\<open>default\<close> holds a theme whose name is \<^verbatim>\<open>other\<close>, and the file \<^verbatim>\<open>default.json\<close> holds a payload
  whose name is \<^verbatim>\<open>other\<close>.  \<open>create_theme\<close> and \<open>load_themes\<close> key a theme by the name in
  its payload: loading the same files again indexes the theme under \<^verbatim>\<open>other\<close> and
  nothing under \<^verbatim>\<open>default\<close>.
\<close>

theorem update_theme_breaks_key_is_name:
  "get_theme renamed_store ''default'' = Some (example_theme ''other'') \<and>
   name (example_theme ''other'') = JStr ''other'' \<and>
   files renamed_store ''default.json'' = Some (JObj (example_payload ''other'')) \<and>
   dict_getitem (example_payload ''other'') ''name'' = Inr (JStr ''other'') \<and>
   map_sum id (\<lambda>s. (get_theme s ''default'', get_theme s ''other''))
       (load_themes [''default.json''] renamed_store) =
     Inr (None, Some (example_theme ''other''))"
proof -
  have "load_themes [''default.json''] renamed_store = Inr (moved_store ''other'')"
    unfolding renamed_store_def by (rule moved_store_reached)
  then show ?thesis
    by (simp add: renamed_store_def renamed_store_eq get_theme_def moved_store_def)
      (simp add: example_theme_def example_payload_def payload_with_def dict_getitem_def)
qed

section \<open>Rendering components (claims C1 and C2)\<close>

lemma join_empty_sep: "join [] parts = concat parts"
  by (induction "[] :: string" parts rule: join.induct) simp_all

lemma adapters_init [simp]:
  "adapters UIGenerator_init REACT = Some ReactAdapter"
  "adapters UIGenerator_init VUE = Some VueAdapter"
  "adapters UIGenerator_init SVELTE = Some SvelteAdapter"
  "adapters UIGenerator_init NEXTJS = Some NextJSAdapter"
  by (simp_all add: UIGenerator_init_def)

lemma react_button_props:
  "ReactAdapter_generate_props pystr (props Button) = ''{ label: string }''"
  by (simp add: ReactAdapter_generate_props_def Button_def py_format_def)

lemma react_button_styles:
  "ReactAdapter_generate_styles pystr (styles Button) = ''color: red;''"
  by (simp add: ReactAdapter_generate_styles_def Button_def py_format_def)

text \<open>
  Claim C1, as stated, says that \<^verbatim>\<open>generate_component\<close> for the Button tree and the
  React target returns a text that destructures \<^verbatim>\<open>{ label }\<close>.  It returns no text: the
  f-string of \<^verbatim>\<open>ReactAdapter.generate_component\<close> does not compile.  And the parameter
  list that \<^verbatim>\<open>ReactAdapter.generate_props\<close> renders for the tree is
  \<^verbatim>\<open>{ label: string }\<close>, each prop with its descriptor.
\<close>

theorem react_button_no_text:
  "generate_component scalar_str ascii_lower UIGenerator_init Button REACT = Inl SyntaxError \<and>
   ReactAdapter_generate_props scalar_str (props Button) = ''{ label: string }''"
  by (simp add: generate_component_def ReactAdapter_generate_component_def
      ReactAdapter_spread_field_def react_button_props)

text \<open>
  Claim C1, amended to what the React adapter renders.  For the Button tree,
  \<^verbatim>\<open>generate_props\<close> returns \<^verbatim>\<open>{ label: string }\<close> and \<^verbatim>\<open>generate_styles\<close> returns
  \<^verbatim>\<open>color: red;\<close>; with these fields the template of the React adapter holds a
  definition named Button whose parameter list is \<^verbatim>\<open>({ label: string })\<close>, and a styled
  wrapper \<^verbatim>\<open>StyledButton\<close> that declares \<^verbatim>\<open>color: red;\<close>, whatever stands for the field
  \<^verbatim>\<open>{...props}\<close>.
\<close>

theorem react_button_template:
  "ComponentDefinition.name Button = ''Button'' \<and>
   ReactAdapter_generate_props pystr (props Button) = ''{ label: string }'' \<and>
   ReactAdapter_generate_styles pystr (styles Button) = ''color: red;'' \<and>
   sublist ''export const Button = ({ label: string }) => {''
     (ReactAdapter_template ''Button'' ''color: red;'' ''{ label: string }'' spread) \<and>
   sublist (''const StyledButton = styled.div`'' @ nl @ ''    color: red;'' @ nl @ ''`;'')
     (ReactAdapter_template ''Button'' ''color: red;'' ''{ label: string }'' spread)"
proof -
  let ?t = "ReactAdapter_template ''Button'' ''color: red;'' ''{ label: string }'' spread"
  have "\<exists>pre post. ?t = pre @ ''export const Button = ({ label: string }) => {'' @ post"
    unfolding ReactAdapter_template_def
    by (rule exI [where x = "nl @ ''import React from 'react';'' @ nl
          @ ''import styled from 'styled-components';'' @ nl @ nl
          @ ''const StyledButton = styled.div`'' @ nl @ ''    color: red;'' @ nl @ ''`;'' @ nl @ nl"],
        rule exI [where x = "nl @ ''    return ('' @ nl @ ''        <StyledButton '' @ spread @ ''>''
          @ nl @ ''            {'' @ [CHR 0x22, CHR 0x22] @ ''.join(children)}'' @ nl
          @ ''        </StyledButton>'' @ nl @ ''    );'' @ nl @ ''};'' @ nl"])
      (simp add: nl_def)
  then have 1: "sublist ''export const Button = ({ label: string }) => {'' ?t"
    by (simp add: sublist_def)
  have "\<exists>pre post. ?t = pre @ (''const StyledButton = styled.div`'' @ nl @ ''    color: red;'' @ nl @ ''`;'') @ post"
    unfolding ReactAdapter_template_def
    by (rule exI [where x = "nl @ ''import React from 'react';'' @ nl
          @ ''import styled from 'styled-components';'' @ nl @ nl"],
        rule exI [where x = "nl @ nl @ ''export const Button = ({ label: string }) => {''
          @ nl @ ''    return ('' @ nl @ ''        <StyledButton '' @ spread @ ''>''
          @ nl @ ''            {'' @ [CHR 0x22, CHR 0x22] @ ''.join(children)}'' @ nl
          @ ''        </StyledButton>'' @ nl @ ''    );'' @ nl @ ''};'' @ nl"])
      (simp add: nl_def)
  then have 2: "sublist (''const StyledButton = styled.div`'' @ nl @ ''    color: red;'' @ nl @ ''`;'') ?t"
    by (simp only: sublist_def)
  from 1 2 show ?thesis
    by (simp add: react_button_props react_button_styles) (simp add: Button_def)
qed

text \<open>The Next.js adapter renders its children and drops the result; the Vue and Svelte
  adapters put the concatenated renderings of the children into their template.\<close>

lemma NextJS_ignores_children:
  "NextJSAdapter_generate_component pystr (ComponentDefinition n p cs st fs) =
   NextJSAdapter_generate_component pystr (ComponentDefinition n p [] st fs)"
  by (simp add: Let_def)

lemma Vue_embeds_children:
  "VueAdapter_generate_component pystr pylower (ComponentDefinition n p cs st fs) =
     VueAdapter_template pylower n (VueAdapter_generate_styles pystr st)
       (VueAdapter_generate_props pystr p)
       (concat (map (VueAdapter_generate_component pystr pylower) cs))"
  by (simp add: Let_def join_empty_sep)

lemma Svelte_embeds_children:
  "SvelteAdapter_generate_component pystr pylower (ComponentDefinition n p cs st fs) =
     SvelteAdapter_template pylower n (SvelteAdapter_generate_styles pystr st)
       (SvelteAdapter_generate_props pystr p)
       (concat (map (SvelteAdapter_generate_component pystr pylower) cs))"
  by (simp add: Let_def join_empty_sep)

lemma Vue_template_contains: "sublist joined (VueAdapter_template pylower n st p joined)"
proof -
  have "\<exists>pre post. VueAdapter_template pylower n st p joined = pre @ joined @ post"
    unfolding VueAdapter_template_def
    by (rule exI [where x = "nl @ ''<template>'' @ nl @ ''    <div class='' @ [CHR 0x22] @ pylower n
          @ [CHR 0x22] @ ''>'' @ nl @ ''        ''"]) (simp add: nl_def)
  then show ?thesis by (simp add: sublist_def)
qed

lemma Svelte_template_contains: "sublist joined (SvelteAdapter_template pylower n st p joined)"
proof -
  have "\<exists>pre post. SvelteAdapter_template pylower n st p joined = pre @ joined @ post"
    unfolding SvelteAdapter_template_def
    by (rule exI [where x = "nl @ ''<script>'' @ nl @ ''    '' @ p @ nl @ ''</script>'' @ nl @ nl
          @ ''<div class='' @ [CHR 0x22] @ pylower n @ [CHR 0x22] @ ''>'' @ nl @ ''    ''"])
      (simp add: nl_def)
  then show ?thesis by (simp add: sublist_def)
qed

lemma Vue_contains_children:
  "sublist (concat (map (VueAdapter_generate_component pystr pylower) cs))
     (VueAdapter_generate_component pystr pylower (ComponentDefinition n p cs st fs))"
  unfolding Vue_embeds_children by (rule Vue_template_contains)

lemma Svelte_contains_children:
  "sublist (concat (map (SvelteAdapter_generate_component pystr pylower) cs))
     (SvelteAdapter_generate_component pystr pylower (ComponentDefinition n p cs st fs))"
  unfolding Svelte_embeds_children by (rule Svelte_template_contains)

lemma NextJS_Button:
  "NextJSAdapter_generate_component scalar_str Button =
     NextJSAdapter_template ''Button'' ''    color: red;'' ''{ label }''"
  by (simp add: Button_def NextJSAdapter_generate_styles_def NextJSAdapter_generate_props_def
      py_format_def)

lemma NextJS_Card:
  "NextJSAdapter_generate_component scalar_str Card =
     NextJSAdapter_template ''Card'' ''    margin: 4px;'' ''{ title }''"
  by (simp add: Card_def NextJSAdapter_generate_styles_def NextJSAdapter_generate_props_def
      py_format_def)

lemma NextJS_Card_without_Button:
  "\<not> sublist (NextJSAdapter_generate_component scalar_str Button)
       (NextJSAdapter_generate_component scalar_str Card)"
  unfolding NextJS_Button NextJS_Card
  by (simp add: NextJSAdapter_template_def nl_def sublist_Cons_right)

text \<open>
  Claim C2 fails on the code for two of the four targets.  For the React target
  \<^verbatim>\<open>generate_component\<close> returns nothing for any tree.  For the Next.js target the output
  is the template filled with the node's own name, styles and props: the children do not
  occur in it (\<^verbatim>\<open>{{"".join(children)}}\<close> is literal text).  So the rendering of Card,
  whose only child is Button, does not contain the rendering of Button.  The Vue and
  Svelte adapters do contain the children's renderings (\<open>Vue_contains_children\<close>,
  \<open>Svelte_contains_children\<close>).
\<close>

theorem children_not_rendered:
  "generate_component pystr pylower UIGenerator_init d REACT = Inl SyntaxError \<and>
   generate_component pystr pylower UIGenerator_init (ComponentDefinition n p cs st fs) NEXTJS =
     Inr (NextJSAdapter_template n (NextJSAdapter_generate_styles pystr st)
            (NextJSAdapter_generate_props pystr p)) \<and>
   generate_component scalar_str ascii_lower UIGenerator_init Card NEXTJS =
     Inr (NextJSAdapter_generate_component scalar_str Card) \<and>
   children Card = [Button] \<and>
   \<not> sublist (NextJSAdapter_generate_component scalar_str Button)
       (NextJSAdapter_generate_component scalar_str Card)"
  using NextJS_Card_without_Button
  by (simp add: generate_component_def ReactAdapter_generate_component_def
      ReactAdapter_spread_field_def Let_def) (simp add: Card_def)

end
